theory Spec2Isabelle
  imports Complex_Main "HOL-Library.Stream"
begin

section \<open>Numbers, strings and randomness\<close>

text \<open>
  JavaScript numbers are modelled as follows: hit points, chances and healing amounts are
  \<^typ>\<open>real\<close>, action points, skill levels, rounds and the results of \<open>Math.floor\<close> are
  \<^typ>\<open>int\<close>.

  The arithmetic of the player's attack (\<open>calculateDamage\<close>,
  \<open>calculateSkillSuccessChance\<close>, \<open>rollCriticalHit\<close>, the defense and the new hit points in
  \<open>processAttack\<close>) and the literals of the balance table are in IEEE double precision:
  every operation returns the exact result rounded by \<open>fl\<close>, and a literal such as \<open>0.2\<close> is
  \<open>fl 0.2\<close>. \<open>fl\<close> rounds to the nearest number with a significand of 53 bits, ties to the
  even significand. The exponent range of doubles (overflow to \<open>Infinity\<close>, subnormal
  numbers) is not modelled; no operation of the attack reaches it on finite numbers. The
  enemy's damage and the healing are computed over the reals.

  \<open>Math.random()\<close> is an explicit stream of rolls; each call takes the head of the stream
  and leaves the tail. A roll is a number in \<open>[0, 1)\<close>.
\<close>

definition round_even :: "real \<Rightarrow> int" where
  "round_even y =
     (let f = \<lfloor>y\<rfloor>; d = y - of_int f
      in if d < 1 / 2 then f else if 1 / 2 < d then f + 1 else if even f then f else f + 1)"

definition fl :: "real \<Rightarrow> real" where
  "fl x =
     (if x = 0 then 0
      else let e = \<lfloor>log 2 \<bar>x\<bar>\<rfloor> - 52
           in of_int (round_even (x / 2 powr of_int e)) * 2 powr of_int e)"

type_synonym rolls = "real stream"

text \<open>\<open>String.prototype.toLowerCase\<close>, on the ASCII letters.\<close>

definition lower_char :: "char \<Rightarrow> char" where
  "lower_char c =
     (case map_of (zip ''ABCDEFGHIJKLMNOPQRSTUVWXYZ'' ''abcdefghijklmnopqrstuvwxyz'') c of
        Some d \<Rightarrow> d
      | None \<Rightarrow> c)"

definition toLowerCase :: "string \<Rightarrow> string" where
  "toLowerCase s = map lower_char s"

text \<open>\<open>String.prototype.includes\<close>: the argument occurs as a contiguous substring.\<close>

fun starts_with :: "string \<Rightarrow> string \<Rightarrow> bool" where
  "starts_with s [] = True"
| "starts_with [] (c # cs) = False"
| "starts_with (d # ds) (c # cs) = (d = c \<and> starts_with ds cs)"

fun str_includes :: "string \<Rightarrow> string \<Rightarrow> bool" where
  "str_includes [] sub = (sub = [])"
| "str_includes (d # ds) sub = (starts_with (d # ds) sub \<or> str_includes ds sub)"

section \<open>types.ts\<close>

datatype RangeTier = Melee | Near | Far

record Enemy =
  eid :: string
  ename :: string
  ehp :: real
  emaxHp :: real
  status :: string
  intent :: "string option"
  erange :: "RangeTier option"

datatype GamePhase = exploration | combat

record GameState =
  hp :: real
  maxHp :: real
  infectionLevel :: real
  supplies :: real
  day :: int
  time_of_day :: string
  location :: string
  inventory :: "string list"
  equippedWeapon :: "string option"
  skills :: "string \<rightharpoonup> int"
  phase :: GamePhase
  actionPoints :: int
  maxActionPoints :: int
  enemies :: "Enemy list"
  lastActionSummary :: string

section \<open>gameBalance.ts\<close>

text \<open>
  The constants of \<open>GAME_BALANCE\<close> that the combat engine reads. The literals 1.5, 0.25 and
  0.5 are doubles as they stand; the other fractions are rounded.
\<close>

definition baseActionPoints :: int where "baseActionPoints = 3"
definition maxActionPoints_const :: int where "maxActionPoints_const = 3"
definition baseDamage :: real where "baseDamage = 10"
definition damageVariance :: real where "damageVariance = fl 0.2"
definition criticalHitChance :: real where "criticalHitChance = fl 0.1"
definition criticalMultiplier :: real where "criticalMultiplier = 1.5"
definition defenseDamageReduction :: real where "defenseDamageReduction = 0.5"
definition fleeBaseChance :: real where "fleeBaseChance = fl 0.6"
definition baseSuccessChance :: real where "baseSuccessChance = fl 0.4"
definition bonusPerLevel :: real where "bonusPerLevel = fl 0.05"
definition maxSkillLevel :: int where "maxSkillLevel = 10"
definition melee_critBonus :: real where "melee_critBonus = fl 0.15"
definition melee_stunChance :: real where "melee_stunChance = fl 0.2"
definition melee_executionChance :: real where "melee_executionChance = 0.25"
definition firearms_jamChance_1to3 :: real where "firearms_jamChance_1to3 = fl 0.05"
definition firearms_jamChance_4to7 :: real where "firearms_jamChance_4to7 = fl 0.02"
definition firearms_headshotBonus :: real where "firearms_headshotBonus = fl 0.2"
definition firearms_apRefund :: bool where "firearms_apRefund = True"
definition medical_healingBonus :: real where "medical_healingBonus = 0.5"
definition skillGrowthOnCritical :: int where "skillGrowthOnCritical = 1"

text \<open>
  \<open>calculateDamage(baseDamage, targetDefense, isCritical)\<close>. It draws one roll for the
  variance and returns the floored damage together with the remaining rolls. The source
  evaluates \<open>baseDamage * (1 + (Math.random() * 2 - 1) * damageVariance)\<close> from the inside
  out, rounding after every operation.
\<close>

definition calculateDamage :: "real \<Rightarrow> real \<Rightarrow> bool \<Rightarrow> rolls \<Rightarrow> int \<times> rolls" where
  "calculateDamage base targetDefense isCritical rs =
     (let damage = fl (base * fl (1 + fl (fl (fl (shd rs * 2) - 1) * damageVariance)));
          damage = max 1 (fl (damage - targetDefense));
          damage = (if isCritical then fl (damage * criticalMultiplier) else damage)
      in (\<lfloor>damage\<rfloor>, stl rs))"

definition calculateSkillSuccessChance :: "int \<Rightarrow> real" where
  "calculateSkillSuccessChance skillLevel =
     (let effectiveLevel = min skillLevel maxSkillLevel
      in fl (baseSuccessChance + fl (of_int effectiveLevel * bonusPerLevel)))"

datatype SkillType = melee | firearms

definition rollCriticalHit :: "int \<Rightarrow> SkillType \<Rightarrow> rolls \<Rightarrow> bool \<times> rolls" where
  "rollCriticalHit skillLevel skillType rs =
     (let critChance = criticalHitChance;
          critChance = (if skillType = melee \<and> skillLevel \<ge> 4 \<and> skillLevel \<le> 7
                        then fl (critChance + melee_critBonus) else critChance);
          critChance = (if skillType = firearms \<and> skillLevel \<ge> 4 \<and> skillLevel \<le> 7
                        then fl (critChance + firearms_headshotBonus) else critChance)
      in (shd rs < critChance, stl rs))"

section \<open>combatEngine.ts\<close>

datatype CombatPhase = player_turn | enemy_turn | victory | defeat | fled

datatype CombatActionType = attack | defend | use_item | flee | move

datatype Direction = closer | away

record CombatAction =
  atype :: CombatActionType
  targetId :: "string option"
  itemId :: "string option"
  direction :: "Direction option"

datatype ResultType =
  damage | heal | defend_result | flee_success | flee_fail | move_result | enemy_attack
  | skill_increase | execution | stun | jam | ap_refund

text \<open>
  The \<open>message\<close> of a result is a template string in the source. Each template is a
  constructor here, carrying the values the template interpolates.
\<close>

datatype Message =
  Msg_invalid_action
  | Msg_jammed string
  | Msg_missed string
  | Msg_execution string
  | Msg_dealt int string real real
  | Msg_stunned string
  | Msg_ap_refund
  | Msg_skill_increased string int
  | Msg_defensive_stance
  | Msg_used string real real real
  | Msg_cannot_be_used string
  | Msg_fled
  | Msg_flee_failed
  | Msg_repositioned bool
  | Msg_recovering string
  | Msg_enemy_attacks string int real real

record CombatResult =
  success :: bool
  rtype :: ResultType
  amount :: "real option"
  rtargetId :: "string option"
  targetName :: "string option"
  message :: Message
  critical :: "bool option"

definition mk_result :: "bool \<Rightarrow> ResultType \<Rightarrow> Message \<Rightarrow> CombatResult" where
  "mk_result ok ty msg =
     \<lparr>success = ok, rtype = ty, amount = None, rtargetId = None, targetName = None,
      message = msg, critical = None\<rparr>"

record CombatState =
  cphase :: CombatPhase
  round :: int
  playerActionPoints :: int
  defendActive :: bool
  log :: "CombatResult list"

text \<open>
  The two private fields of the class \<open>CombatEngine\<close>. Every method takes the engine and
  returns the engine it leaves behind.
\<close>

record Engine =
  gameState :: GameState
  combatState :: CombatState

definition new_CombatEngine :: "GameState \<Rightarrow> Engine" where
  "new_CombatEngine gs =
     \<lparr>gameState = gs,
      combatState = \<lparr>cphase = player_turn, round = 1, playerActionPoints = actionPoints gs,
                     defendActive = False, log = []\<rparr>\<rparr>"

text \<open>A string is truthy in JavaScript when it is present and not empty.\<close>

definition truthy :: "string option \<Rightarrow> bool" where
  "truthy s = (case s of None \<Rightarrow> False | Some t \<Rightarrow> t \<noteq> [])"

definition isActionValid :: "CombatAction \<Rightarrow> Engine \<Rightarrow> bool" where
  "isActionValid action eng =
     (if cphase (combatState eng) \<noteq> player_turn then False
      else if playerActionPoints (combatState eng) < 1 then False
      else if atype action = attack \<and>
              (\<not> truthy (targetId action) \<or>
               (case find (\<lambda>e. Some (eid e) = targetId action) (enemies (gameState eng)) of
                  None \<Rightarrow> True
                | Some target \<Rightarrow> ehp target \<le> 0)) then False
      else if atype action = use_item \<and>
              (\<not> truthy (itemId action) \<or>
               the (itemId action) \<notin> set (inventory (gameState eng))) then False
      else True)"

definition isFirearm :: "string option \<Rightarrow> bool" where
  "isFirearm weaponName =
     (if \<not> truthy weaponName then False
      else let name = toLowerCase (the weaponName)
           in str_includes name ''gun'' \<or> str_includes name ''pistol'' \<or>
              str_includes name ''rifle'' \<or> str_includes name ''shotgun'' \<or>
              str_includes name ''smg'' \<or> str_includes name ''revolver'' \<or>
              str_includes name ''bow'')"

text \<open>\<open>skills[name] || 1\<close>: a missing entry and the level 0 both read as 1.\<close>

definition skill_or_1 :: "int option \<Rightarrow> int" where
  "skill_or_1 v = (case v of None \<Rightarrow> 1 | Some l \<Rightarrow> if l = 0 then 1 else l)"

text \<open>
  \<open>target\<close> is the first enemy with the requested id, and the source mutates that object
  in place inside \<open>gameState.enemies\<close>.
\<close>

fun update_target :: "string \<Rightarrow> (Enemy \<Rightarrow> Enemy) \<Rightarrow> Enemy list \<Rightarrow> Enemy list" where
  "update_target tid f [] = []"
| "update_target tid f (e # es) =
     (if eid e = tid then f e # es else e # update_target tid f es)"

definition set_enemies :: "Enemy list \<Rightarrow> Engine \<Rightarrow> Engine" where
  "set_enemies es eng = eng\<lparr>gameState := (gameState eng)\<lparr>enemies := es\<rparr>\<rparr>"

definition set_AP :: "int \<Rightarrow> Engine \<Rightarrow> Engine" where
  "set_AP n eng = eng\<lparr>combatState := (combatState eng)\<lparr>playerActionPoints := n\<rparr>\<rparr>"

text \<open>The AP refund of a kill with a firearm at level 8 to 10.\<close>

definition refund_AP :: "Engine \<Rightarrow> Engine" where
  "refund_AP eng =
     set_AP (min (playerActionPoints (combatState eng) + 1) maxActionPoints_const) eng"

definition ap_refund_result :: CombatResult where
  "ap_refund_result = mk_result True ap_refund Msg_ap_refund"

text \<open>
  \<open>processAttack\<close> is split at its two early returns. \<open>attack_execute\<close> is the execution
  branch (the target exists, the weapon did not jam, the attack hit and the execution roll
  succeeded); it returns before the skill increase.
\<close>

definition attack_execute ::
  "string \<Rightarrow> Enemy \<Rightarrow> bool \<Rightarrow> int \<Rightarrow> Engine \<Rightarrow> CombatResult list \<times> Engine"
where
  "attack_execute tid target isF skillLevel eng =
     (let eng1 = set_enemies
                   (update_target tid (\<lambda>e. e\<lparr>ehp := 0\<rparr>) (enemies (gameState eng))) eng;
          res1 = [(mk_result True execution (Msg_execution (ename target)))
                    \<lparr>rtargetId := Some tid, targetName := Some (ename target),
                     critical := Some True\<rparr>]
      in if isF \<and> skillLevel \<ge> 8 \<and> firearms_apRefund
         then (res1 @ [ap_refund_result], refund_AP eng1)
         else (res1, eng1))"

text \<open>
  \<open>attack_damage\<close> is the rest of \<open>processAttack\<close> after the execution check: damage, stun,
  AP refund on a kill, skill increase on a critical hit.
\<close>

definition attack_damage ::
  "string \<Rightarrow> Enemy \<Rightarrow> bool \<Rightarrow> int \<Rightarrow> bool \<Rightarrow> Engine \<Rightarrow> rolls \<Rightarrow>
     CombatResult list \<times> Engine \<times> rolls"
where
  "attack_damage tid target isF skillLevel isCritical eng rs4 =
     (let (dmg, rs5) =
            calculateDamage baseDamage
              (if emaxHp target > 50 then fl (emaxHp target / 10) else 2) isCritical rs4;
          newHp = max 0 (fl (ehp target - of_int dmg));
          eng1 = set_enemies
                   (update_target tid (\<lambda>e. e\<lparr>ehp := newHp\<rparr>) (enemies (gameState eng))) eng;
          res1 = [(mk_result True damage (Msg_dealt dmg (ename target) newHp (emaxHp target)))
                    \<lparr>amount := Some (of_int dmg), rtargetId := Some tid,
                     targetName := Some (ename target), critical := Some isCritical\<rparr>];
          (stunned, rs6) =
            (if \<not> isF \<and> skillLevel \<ge> 4 \<and> skillLevel \<le> 7
             then (shd rs5 < melee_stunChance, stl rs5) else (False, rs5));
          eng2 = (if stunned
                  then set_enemies
                         (update_target tid (\<lambda>e. e\<lparr>status := ''Stunned''\<rparr>)
                            (enemies (gameState eng1))) eng1
                  else eng1);
          res2 = (if stunned
                  then res1 @ [(mk_result True stun (Msg_stunned (ename target)))
                                 \<lparr>rtargetId := Some tid, targetName := Some (ename target)\<rparr>]
                  else res1);
          refund = (newHp \<le> 0 \<and> isF \<and> skillLevel \<ge> 8 \<and> firearms_apRefund);
          eng3 = (if refund then refund_AP eng2 else eng2);
          res3 = (if refund then res2 @ [ap_refund_result] else res2);
          skillName = (if isF then ''Firearms'' else ''Melee'');
          grow = (isCritical \<and> skillLevel < maxSkillLevel);
          newLevel = skillLevel + skillGrowthOnCritical;
          eng4 = (if grow
                  then eng3\<lparr>gameState := (gameState eng3)
                               \<lparr>skills := (skills (gameState eng3))(skillName \<mapsto> newLevel)\<rparr>\<rparr>
                  else eng3);
          res4 = (if grow
                  then res3 @ [mk_result True skill_increase
                                 (Msg_skill_increased skillName newLevel)]
                  else res3)
      in (res4, eng4, rs6))"

text \<open>
  \<open>attack_hit\<close> is \<open>processAttack\<close> from the roll for a critical hit on. The execution roll
  is drawn only when the first three conditions of the \<open>&&\<close> chain hold.
\<close>

definition attack_hit ::
  "string \<Rightarrow> Enemy \<Rightarrow> bool \<Rightarrow> int \<Rightarrow> Engine \<Rightarrow> rolls \<Rightarrow> CombatResult list \<times> Engine \<times> rolls"
where
  "attack_hit tid target isF skillLevel eng rs2 =
     (let (isCritical, rs3) = rollCriticalHit skillLevel (if isF then firearms else melee) rs2;
          (executed, rs4) =
             (if \<not> isF \<and> skillLevel \<ge> 8 \<and> isCritical
              then (shd rs3 < melee_executionChance, stl rs3) else (False, rs3))
      in if executed
         then (let (res, eng') = attack_execute tid target isF skillLevel eng in (res, eng', rs4))
         else attack_damage tid target isF skillLevel isCritical eng rs4)"

definition processAttack ::
  "string \<Rightarrow> Engine \<Rightarrow> rolls \<Rightarrow> CombatResult list \<times> Engine \<times> rolls"
where
  "processAttack tid eng rs =
     (case find (\<lambda>e. eid e = tid) (enemies (gameState eng)) of
        None \<Rightarrow> ([], eng, rs)
      | Some target \<Rightarrow>
         (let weapon = (if truthy (equippedWeapon (gameState eng))
                         then the (equippedWeapon (gameState eng)) else ''Fists'');
              isF = isFirearm (Some weapon);
              skillLevel = skill_or_1 (skills (gameState eng) (if isF then ''Firearms'' else ''Melee''));
              (jammed, rs1) =
                (if isF \<and> skillLevel \<le> 7
                 then (shd rs < (if skillLevel \<le> 3 then firearms_jamChance_1to3
                                 else firearms_jamChance_4to7), stl rs)
                 else (False, rs))
          in if jammed then ([mk_result False jam (Msg_jammed weapon)], eng, rs1)
             else if shd rs1 > calculateSkillSuccessChance skillLevel
             then ([(mk_result False damage (Msg_missed (ename target)))
                      \<lparr>rtargetId := Some tid, targetName := Some (ename target)\<rparr>], eng, stl rs1)
             else attack_hit tid target isF skillLevel eng (stl rs1)))"

definition processDefend :: "Engine \<Rightarrow> CombatResult list \<times> Engine" where
  "processDefend eng =
     ([mk_result True defend_result Msg_defensive_stance],
      eng\<lparr>combatState := (combatState eng)\<lparr>defendActive := True\<rparr>\<rparr>)"

text \<open>\<open>inventory.splice(inventory.indexOf(itemId), 1)\<close>: the first occurrence goes.\<close>

definition processUseItem :: "string \<Rightarrow> Engine \<Rightarrow> CombatResult list \<times> Engine" where
  "processUseItem item eng =
     (let itemLower = toLowerCase item
      in if str_includes itemLower ''bandage'' \<or> str_includes itemLower ''medkit'' \<or>
            str_includes itemLower ''heal''
         then
           (let gs = gameState eng;
                medicalLevel = skill_or_1 (skills gs ''Medical'');
                healAmount = (if medicalLevel \<ge> 4 then 25 * (1 + medical_healingBonus) else 25);
                newHp = min (maxHp gs) (hp gs + healAmount);
                gs1 = gs\<lparr>hp := newHp, inventory := remove1 item (inventory gs)\<rparr>
            in ([(mk_result True heal (Msg_used item healAmount newHp (maxHp gs)))
                   \<lparr>amount := Some healAmount\<rparr>],
                eng\<lparr>gameState := gs1\<rparr>))
         else ([mk_result False heal (Msg_cannot_be_used item)], eng))"

definition processFlee :: "Engine \<Rightarrow> rolls \<Rightarrow> CombatResult list \<times> Engine \<times> rolls" where
  "processFlee eng rs =
     (if shd rs < fleeBaseChance
      then ([mk_result True flee_success Msg_fled],
            eng\<lparr>combatState := (combatState eng)\<lparr>cphase := fled\<rparr>,
                gameState := (gameState eng)\<lparr>phase := exploration, enemies := []\<rparr>\<rparr>,
            stl rs)
      else ([mk_result False flee_fail Msg_flee_failed], eng, stl rs))"

definition move_enemy :: "Direction option \<Rightarrow> Enemy \<Rightarrow> Enemy" where
  "move_enemy dir e =
     (if dir = Some closer
      then (if erange e = Some Far then e\<lparr>erange := Some Near\<rparr>
            else if erange e = Some Near then e\<lparr>erange := Some Melee\<rparr> else e)
      else (if erange e = Some Melee then e\<lparr>erange := Some Near\<rparr>
            else if erange e = Some Near then e\<lparr>erange := Some Far\<rparr> else e))"

definition processMove :: "Direction option \<Rightarrow> Engine \<Rightarrow> CombatResult list \<times> Engine" where
  "processMove dir eng =
     ([mk_result True move_result (Msg_repositioned (dir = Some closer))],
      set_enemies (map (move_enemy dir) (enemies (gameState eng))) eng)"

definition endPlayerTurn :: "Engine \<Rightarrow> Engine" where
  "endPlayerTurn eng = eng\<lparr>combatState := (combatState eng)\<lparr>cphase := enemy_turn\<rparr>\<rparr>"

text \<open>
  The damage of one enemy attack in \<open>processEnemyTurn\<close>, from the enemy's \<open>maxHp\<close>, the
  \<open>defendActive\<close> flag and the roll.
\<close>

definition enemy_damage :: "real \<Rightarrow> bool \<Rightarrow> real \<Rightarrow> int" where
  "enemy_damage mhp defending r =
     (let dmg = (if mhp > 50 then 15 else 8 :: int);
          dmg = (if defending then \<lfloor>of_int dmg * (1 - defenseDamageReduction)\<rfloor> else dmg);
          dmg = \<lfloor>of_int dmg * (0.8 + r * 0.4)\<rfloor>
      in max 1 dmg)"

text \<open>
  The \<open>forEach\<close> of \<open>processEnemyTurn\<close>. The source first filters the enemies with
  \<open>hp > 0\<close> and then visits them in order, mutating each visited enemy in place; no
  enemy's \<open>hp\<close> changes during the loop, so the loop below, which walks the whole list
  and passes over the enemies with \<open>hp \<le> 0\<close>, visits the same enemies in the same order.
  It returns the results, the enemies as mutated, the player's \<open>hp\<close> and the rolls left.
\<close>

definition is_stunned :: "Enemy \<Rightarrow> bool" where
  "is_stunned e = str_includes (toLowerCase (status e)) ''stun''"

fun enemy_loop ::
  "bool \<Rightarrow> real \<Rightarrow> Enemy list \<Rightarrow> real \<Rightarrow> rolls \<Rightarrow> CombatResult list \<times> Enemy list \<times> real \<times> rolls"
where
  "enemy_loop defending mx [] h rs = ([], [], h, rs)"
| "enemy_loop defending mx (e # es) h rs =
     (if \<not> ehp e > 0 then
        (let (res, es', h', rs') = enemy_loop defending mx es h rs in (res, e # es', h', rs'))
      else if is_stunned e then
        (let (res, es', h', rs') = enemy_loop defending mx es h rs
         in ((mk_result False enemy_attack (Msg_recovering (ename e)))
               \<lparr>targetName := Some (ename e)\<rparr> # res,
             e\<lparr>status := ''Active''\<rparr> # es', h', rs'))
      else
        (let dmg = enemy_damage (emaxHp e) defending (shd rs);
             h1 = max 0 (h - of_int dmg);
             (res, es', h', rs') = enemy_loop defending mx es h1 (stl rs)
         in ((mk_result True enemy_attack (Msg_enemy_attacks (ename e) dmg h1 mx))
               \<lparr>amount := Some (of_int dmg), targetName := Some (ename e)\<rparr> # res,
             e # es', h', rs')))"

definition processEnemyTurn :: "Engine \<Rightarrow> rolls \<Rightarrow> CombatResult list \<times> Engine \<times> rolls" where
  "processEnemyTurn eng rs =
     (let gs = gameState eng; cs = combatState eng;
          (res, es', h', rs') =
             enemy_loop (defendActive cs) (maxHp gs) (enemies gs) (hp gs) rs;
          cs1 = cs\<lparr>defendActive := False, round := round cs + 1, cphase := player_turn,
                   playerActionPoints := baseActionPoints\<rparr>;
          gs1 = gs\<lparr>enemies := es', hp := h', actionPoints := baseActionPoints\<rparr>
      in (res, \<lparr>gameState = gs1, combatState = cs1\<rparr>, rs'))"

definition checkCombatEnd :: "Engine \<Rightarrow> Engine" where
  "checkCombatEnd eng =
     (if hp (gameState eng) \<le> 0
      then eng\<lparr>combatState := (combatState eng)\<lparr>cphase := defeat\<rparr>,
               gameState := (gameState eng)\<lparr>phase := exploration\<rparr>\<rparr>
      else if length (filter (\<lambda>e. ehp e > 0) (enemies (gameState eng))) = 0
      then eng\<lparr>combatState := (combatState eng)\<lparr>cphase := victory\<rparr>,
               gameState := (gameState eng)\<lparr>phase := exploration, enemies := []\<rparr>\<rparr>
      else eng)"

text \<open>The \<open>switch\<close> of \<open>processAction\<close>.\<close>

definition dispatch ::
  "CombatAction \<Rightarrow> Engine \<Rightarrow> rolls \<Rightarrow> CombatResult list \<times> Engine \<times> rolls"
where
  "dispatch action eng rs =
     (case atype action of
        attack \<Rightarrow> processAttack (the (targetId action)) eng rs
      | defend \<Rightarrow> (let (res, eng') = processDefend eng in (res, eng', rs))
      | use_item \<Rightarrow> (let (res, eng') = processUseItem (the (itemId action)) eng in (res, eng', rs))
      | flee \<Rightarrow> processFlee eng rs
      | move \<Rightarrow> (let (res, eng') = processMove (direction action) eng in (res, eng', rs)))"

text \<open>
  AP deduction: skipped only when the action is \<open>flee\<close> and the first result is
  \<open>flee_success\<close>.
\<close>

definition deduct_AP :: "CombatAction \<Rightarrow> CombatResult list \<Rightarrow> Engine \<Rightarrow> Engine" where
  "deduct_AP action results eng =
     (if atype action \<noteq> flee \<or> (case results of [] \<Rightarrow> True | r # _ \<Rightarrow> rtype r \<noteq> flee_success)
      then (let n = playerActionPoints (combatState eng) - 1
            in eng\<lparr>combatState := (combatState eng)\<lparr>playerActionPoints := n\<rparr>,
                   gameState := (gameState eng)\<lparr>actionPoints := n\<rparr>\<rparr>)
      else eng)"

text \<open>
  \<open>processAction\<close> returns the results of the call; the engine it leaves behind holds the
  game state and the combat state that the source returns copies of.
\<close>

definition processAction ::
  "CombatAction \<Rightarrow> Engine \<Rightarrow> rolls \<Rightarrow> CombatResult list \<times> Engine \<times> rolls"
where
  "processAction action eng rs =
     (if \<not> isActionValid action eng
      then ([mk_result False damage Msg_invalid_action], eng, rs)
      else
        (let (results, eng1, rs1) = dispatch action eng rs;
             eng2 = deduct_AP action results eng1;
             (results2, eng3, rs2) =
               (if playerActionPoints (combatState eng2) \<le> 0
                then (let (enemyResults, e, r) = processEnemyTurn (endPlayerTurn eng2) rs1
                      in (results @ enemyResults, e, r))
                else (results, eng2, rs1));
             eng4 = checkCombatEnd eng3;
             eng5 = eng4\<lparr>combatState := (combatState eng4)
                           \<lparr>log := log (combatState eng4) @ results2\<rparr>\<rparr>
         in (results2, eng5, rs2)))"

text \<open>The defense that \<open>processAttack\<close> passes to \<open>calculateDamage\<close>.\<close>

definition targetDefense :: "Enemy \<Rightarrow> real" where
  "targetDefense target = (if emaxHp target > 50 then fl (emaxHp target / 10) else 2)"

section \<open>rotjsIntegration.ts\<close>

datatype TileType = tile_floor | wall | door | grass | water | building | ruins

text \<open>
  An element of \<open>resources\<close> is \<open>None\<close> where the source would store \<open>undefined\<close> (an
  index outside the array of resource names).
\<close>

record Tile =
  ttype :: TileType
  explored :: bool
  visible :: bool
  resources :: "string option list option"
  zombiesCleared :: "bool option"

text \<open>\<open>tiles\<close> is the list of rows: \<open>tiles[y][x]\<close>.\<close>

record WorldMap =
  width :: int
  height :: int
  tiles :: "Tile list list"
  seed :: string

record Position =
  px :: int
  py :: int

text \<open>
  Reading a property of \<open>undefined\<close> throws a \<open>TypeError\<close>; functions that can do so return
  \<open>Inl TypeError\<close>.
\<close>

datatype error = TypeError

text \<open>\<open>tiles[y] && tiles[y][x]\<close>: the tile, or nothing when the row or the tile is missing.\<close>

definition tile_at :: "Tile list list \<Rightarrow> int \<Rightarrow> int \<Rightarrow> Tile option" where
  "tile_at ts x y =
     (if 0 \<le> y \<and> y < int (length ts) \<and> 0 \<le> x \<and> x < int (length (ts ! nat y))
      then Some (ts ! nat y ! nat x) else None)"

text \<open>\<open>tiles[y][x] = f(tiles[y][x])\<close> on a tile that exists.\<close>

definition update_tile :: "int \<Rightarrow> int \<Rightarrow> (Tile \<Rightarrow> Tile) \<Rightarrow> Tile list list \<Rightarrow> Tile list list" where
  "update_tile x y f ts = ts[nat y := (ts ! nat y)[nat x := f (ts ! nat y ! nat x)]]"

text \<open>
  The library rot-js is not part of the repository. Its entry points that the module uses
  are parameters of the model, collected in one record:
  \<^item> \<open>setSeed\<close>: the state of the global generator \<open>ROT.RNG\<close> after \<open>ROT.RNG.setSeed(n)\<close>;
  \<^item> \<open>getUniformInt lo hi\<close>: \<open>ROT.RNG.getUniformInt\<close>, which returns a number and advances
    the generator;
  \<^item> \<open>digger\<close>: \<open>new ROT.Map.Digger(width, height, options)\<close> with the fixed options of the
    source, followed by \<open>create\<close>: the cells \<open>(x, y, value)\<close> passed to the callback, in
    order, and the rooms (\<open>getRooms\<close>), or the error if the library throws (as it can on
    maps too small for a room), and the generator afterwards;
  \<^item> \<open>cellular\<close>: \<open>new ROT.Map.Cellular(width, height, options)\<close>, \<open>randomize(0.5)\<close>, four
    calls of \<open>create()\<close> and the final \<open>create(callback)\<close>: the cells passed to the
    callback, or the error if the library throws, and the generator afterwards;
  \<^item> \<open>fov\<close>: \<open>new ROT.FOV.PreciseShadowcasting(lightPasses).compute(x, y, radius, callback)\<close>:
    the cells passed to the callback, in order;
  \<^item> \<open>astar\<close>: \<open>new ROT.Path.AStar(toX, toY, passable).compute(fromX, fromY, callback)\<close>: the
    cells passed to the callback, in order.
  The callbacks given to the library can throw, so \<open>fov\<close> and \<open>astar\<close> take a callback with
  a result in \<open>error + bool\<close> and can themselves return an error. The generator state is
  an arbitrary type \<open>'g\<close>. The value \<open>TypeError\<close> stands for any exception.
\<close>

record Room =
  doors :: "(int \<times> int) list"
  center :: "int \<times> int"

record 'g ROT =
  setSeed :: "real \<Rightarrow> 'g"
  getUniformInt :: "int \<Rightarrow> int \<Rightarrow> 'g \<Rightarrow> int \<times> 'g"
  digger :: "int \<Rightarrow> int \<Rightarrow> 'g \<Rightarrow> (error + (int \<times> int \<times> int) list \<times> Room list) \<times> 'g"
  cellular :: "int \<Rightarrow> int \<Rightarrow> 'g \<Rightarrow> (error + (int \<times> int \<times> int) list) \<times> 'g"
  fov :: "(int \<Rightarrow> int \<Rightarrow> error + bool) \<Rightarrow> int \<Rightarrow> int \<Rightarrow> int \<Rightarrow> error + (int \<times> int) list"
  astar :: "(int \<Rightarrow> int \<Rightarrow> error + bool) \<Rightarrow> int \<times> int \<Rightarrow> int \<times> int \<Rightarrow> error + (int \<times> int) list"

text \<open>
  The built-ins of JavaScript that world generation calls: \<open>Date.now().toString()\<close> is the
  parameter \<open>now\<close> of the generators, and \<open>parseFloat\<close> is a parameter whose result \<open>None\<close>
  stands for \<open>NaN\<close>.
\<close>

text \<open>\<open>parseFloat(actualSeed) || 12345\<close>: \<open>NaN\<close> and 0 are falsy.\<close>

definition seed_number :: "(string \<Rightarrow> real option) \<Rightarrow> string \<Rightarrow> real" where
  "seed_number parseFloat actualSeed =
     (case parseFloat actualSeed of None \<Rightarrow> 12345 | Some n \<Rightarrow> if n = 0 then 12345 else n)"

text \<open>\<open>seed || Date.now().toString()\<close>: a missing or empty seed is replaced by the clock.\<close>

definition actual_seed :: "string option \<Rightarrow> string \<Rightarrow> string" where
  "actual_seed sd now = (if truthy sd then the sd else now)"

definition blank_tile :: "TileType \<Rightarrow> Tile" where
  "blank_tile ty =
     \<lparr>ttype = ty, explored = False, visible = False, resources = None, zombiesCleared = None\<rparr>"

text \<open>The two nested \<open>for\<close> loops that fill \<open>tiles\<close>.\<close>

definition initial_tiles :: "int \<Rightarrow> int \<Rightarrow> TileType \<Rightarrow> Tile list list" where
  "initial_tiles w h ty = replicate (nat h) (replicate (nat w) (blank_tile ty))"

text \<open>
  The callback of \<open>create\<close>: \<open>tiles[y][x].type = ...\<close>, which throws when the tile is
  missing. \<open>pick\<close> maps the value of the cell to the tile type.
\<close>

fun carve :: "(int \<Rightarrow> TileType) \<Rightarrow> (int \<times> int \<times> int) list \<Rightarrow> Tile list list \<Rightarrow> error + Tile list list"
where
  "carve pick [] ts = Inr ts"
| "carve pick ((x, y, v) # cells) ts =
     (case tile_at ts x y of
        None \<Rightarrow> Inl TypeError
      | Some t \<Rightarrow> carve pick cells (update_tile x y (\<lambda>t. t\<lparr>ttype := pick v\<rparr>) ts))"

text \<open>\<open>room.getDoors\<close> with the guarded assignment of \<open>door\<close>, for every room.\<close>

definition place_door :: "int \<times> int \<Rightarrow> Tile list list \<Rightarrow> Tile list list" where
  "place_door c ts =
     (case tile_at ts (fst c) (snd c) of
        None \<Rightarrow> ts
      | Some t \<Rightarrow> update_tile (fst c) (snd c) (\<lambda>t. t\<lparr>ttype := door\<rparr>) ts)"

definition place_doors :: "Room list \<Rightarrow> Tile list list \<Rightarrow> Tile list list" where
  "place_doors rooms ts = foldl (\<lambda>ts room. foldl (\<lambda>ts c. place_door c ts) ts (doors room)) ts rooms"

definition resourceTypes :: "string list" where
  "resourceTypes = [''Scrap Metal'', ''Canned Food'', ''Bandages'', ''Ammo'']"

text \<open>
  The resource spawn at the centre of every room. The generator is advanced only when the
  centre tile exists.
\<close>

fun place_resources :: "'g ROT \<Rightarrow> Room list \<Rightarrow> Tile list list \<Rightarrow> 'g \<Rightarrow> Tile list list \<times> 'g" where
  "place_resources rot [] ts g = (ts, g)"
| "place_resources rot (room # rooms) ts g =
     (case tile_at ts (fst (center room)) (snd (center room)) of
        None \<Rightarrow> place_resources rot rooms ts g
      | Some t \<Rightarrow>
         (let (i, g') = getUniformInt rot 0 (int (length resourceTypes) - 1) g;
              r = (if 0 \<le> i \<and> i < int (length resourceTypes)
                   then Some (resourceTypes ! nat i) else None)
          in place_resources rot rooms
               (update_tile (fst (center room)) (snd (center room))
                  (\<lambda>t. t\<lparr>resources := Some [r]\<rparr>) ts) g'))"

text \<open>
  \<open>generateProceduralWorld(width, height, seed)\<close>. Besides its three arguments it gets what
  the source reads from its environment: the clock \<open>now\<close> and the state \<open>g0\<close> of the global
  generator before the call. It returns the world, or the error thrown (by the library or
  by a callback), and the state of the generator afterwards.
\<close>

definition generateProceduralWorld ::
  "'g ROT \<Rightarrow> (string \<Rightarrow> real option) \<Rightarrow> int \<Rightarrow> int \<Rightarrow> string option \<Rightarrow> string \<Rightarrow> 'g \<Rightarrow>
     (error + WorldMap) \<times> 'g"
where
  "generateProceduralWorld rot parseFloat w h sd now g0 =
     (let actualSeed = actual_seed sd now;
          g1 = setSeed rot (seed_number parseFloat actualSeed);
          ts0 = initial_tiles w h wall
      in case digger rot w h g1 of
           (Inl e, g2) \<Rightarrow> (Inl e, g2)
         | (Inr (cells, rooms), g2) \<Rightarrow>
            (case carve (\<lambda>v. if v = 0 then tile_floor else wall) cells ts0 of
               Inl e \<Rightarrow> (Inl e, g2)
             | Inr ts1 \<Rightarrow>
                (let ts2 = place_doors rooms ts1;
                     (ts3, g3) = place_resources rot rooms ts2 g2
                 in (Inr \<lparr>width = w, height = h, tiles = ts3, seed = actualSeed\<rparr>, g3))))"

text \<open>
  The ten building placements of \<open>generateCellularWorld\<close>; \<open>tiles[y][x].type\<close> throws when
  the tile is missing.
\<close>

fun place_buildings :: "'g ROT \<Rightarrow> nat \<Rightarrow> int \<Rightarrow> int \<Rightarrow> Tile list list \<Rightarrow> 'g \<Rightarrow> (error + Tile list list) \<times> 'g"
where
  "place_buildings rot 0 w h ts g = (Inr ts, g)"
| "place_buildings rot (Suc n) w h ts g =
     (let (x, g1) = getUniformInt rot 1 (w - 2) g;
          (y, g2) = getUniformInt rot 1 (h - 2) g1
      in case tile_at ts x y of
           None \<Rightarrow> (Inl TypeError, g2)
         | Some t \<Rightarrow>
            (if ttype t = grass
             then place_buildings rot n w h
                    (update_tile x y
                       (\<lambda>t. t\<lparr>ttype := building,
                               resources := Some [Some ''Medical Supplies'', Some ''Tools'',
                                                  Some ''Food'']\<rparr>) ts) g2
             else place_buildings rot n w h ts g2))"

definition generateCellularWorld ::
  "'g ROT \<Rightarrow> (string \<Rightarrow> real option) \<Rightarrow> int \<Rightarrow> int \<Rightarrow> string option \<Rightarrow> string \<Rightarrow> 'g \<Rightarrow>
     (error + WorldMap) \<times> 'g"
where
  "generateCellularWorld rot parseFloat w h sd now g0 =
     (let actualSeed = actual_seed sd now;
          g1 = setSeed rot (seed_number parseFloat actualSeed);
          ts0 = initial_tiles w h grass
      in case cellular rot w h g1 of
           (Inl e, g2) \<Rightarrow> (Inl e, g2)
         | (Inr cells, g2) \<Rightarrow>
            (case carve (\<lambda>v. if v = 1 then grass else water) cells ts0 of
               Inl e \<Rightarrow> (Inl e, g2)
             | Inr ts1 \<Rightarrow>
                (case place_buildings rot 10 w h ts1 g2 of
                   (Inl e, g3) \<Rightarrow> (Inl e, g3)
                 | (Inr ts2, g3) \<Rightarrow>
                     (Inr \<lparr>width = w, height = h, tiles = ts2, seed = actualSeed\<rparr>, g3))))"

text \<open>
  The choice of the generator by the level type, as \<open>WorldStateManager.initializeWorld\<close>
  (worldStateManager.ts) makes it: \<open>outdoor\<close> is the cellular world, everything else the
  dungeon.
\<close>

datatype LevelType = dungeon | outdoor | mixed

definition generate ::
  "'g ROT \<Rightarrow> (string \<Rightarrow> real option) \<Rightarrow> int \<Rightarrow> int \<Rightarrow> string option \<Rightarrow> LevelType \<Rightarrow> string \<Rightarrow> 'g \<Rightarrow>
     (error + WorldMap) \<times> 'g"
where
  "generate rot parseFloat w h sd style now g0 =
     (case style of
        outdoor \<Rightarrow> generateCellularWorld rot parseFloat w h sd now g0
      | _ \<Rightarrow> generateProceduralWorld rot parseFloat w h sd now g0)"

text \<open>
  \<open>lightPasses\<close>, the closure of \<open>calculateFOV\<close> and of \<open>hasLineOfSight\<close>: outside the
  declared dimensions no light passes; inside, \<open>world.tiles[y][x].type\<close> is read.
\<close>

definition lightPasses :: "WorldMap \<Rightarrow> int \<Rightarrow> int \<Rightarrow> error + bool" where
  "lightPasses world x y =
     (if x < 0 \<or> y < 0 \<or> x \<ge> width world \<or> y \<ge> height world then Inr False
      else case tile_at (tiles world) x y of
             None \<Rightarrow> Inl TypeError
           | Some tile \<Rightarrow> Inr (ttype tile \<noteq> wall))"

text \<open>The callback of \<open>fov.compute\<close>: the guarded marking of one tile.\<close>

definition mark_visible :: "int \<times> int \<Rightarrow> Tile list list \<Rightarrow> Tile list list" where
  "mark_visible c ts =
     (case tile_at ts (fst c) (snd c) of
        None \<Rightarrow> ts
      | Some t \<Rightarrow> update_tile (fst c) (snd c) (\<lambda>t. t\<lparr>visible := True, explored := True\<rparr>) ts)"

text \<open>
  \<open>calculateFOV(world, x, y, radius)\<close> returns the world as mutated and the set of visible
  positions. The callback changes only the flags \<open>visible\<close> and \<open>explored\<close>, which
  \<open>lightPasses\<close> does not read, so marking the cells after the library has listed them
  gives the same world as marking each one when the library reports it.
\<close>

definition calculateFOV ::
  "'g ROT \<Rightarrow> WorldMap \<Rightarrow> int \<Rightarrow> int \<Rightarrow> int \<Rightarrow> error + (WorldMap \<times> (int \<times> int) set)"
where
  "calculateFOV rot world x y radius =
     (case fov rot (lightPasses world) x y radius of
        Inl e \<Rightarrow> Inl e
      | Inr cells \<Rightarrow>
          Inr (world\<lparr>tiles := foldl (\<lambda>ts c. mark_visible c ts) (tiles world) cells\<rparr>, set cells))"

text \<open>
  The reset loop of \<open>updateVisibility\<close>: \<open>world.tiles[y][x].visible = false\<close> for
  \<open>y < height\<close> and \<open>x < width\<close>; it throws when one of these tiles is missing.
\<close>

definition reset_visible :: "WorldMap \<Rightarrow> error + Tile list list" where
  "reset_visible world =
     (if list_all (\<lambda>y. list_all (\<lambda>x. tile_at (tiles world) x y \<noteq> None) [0..width world - 1])
           [0..height world - 1]
      then Inr (map (\<lambda>(y, row). map (\<lambda>(x, t). if int y < height world \<and> int x < width world
                                              then t\<lparr>visible := False\<rparr> else t)
                                   (enumerate 0 row))
                  (enumerate 0 (tiles world)))
      else Inl TypeError)"

definition updateVisibility :: "'g ROT \<Rightarrow> WorldMap \<Rightarrow> int \<Rightarrow> int \<Rightarrow> int \<Rightarrow> error + WorldMap" where
  "updateVisibility rot world x y radius =
     (case reset_visible world of
        Inl e \<Rightarrow> Inl e
      | Inr ts \<Rightarrow>
         (case calculateFOV rot (world\<lparr>tiles := ts\<rparr>) x y radius of
            Inl e \<Rightarrow> Inl e
          | Inr (world', vis) \<Rightarrow> Inr world'))"

text \<open>
  \<open>hasLineOfSight(world, start, end)\<close>: the path finder is created with the end as its
  target and computes from the start; the callback clears the flag on a cell that
  \<open>lightPasses\<close> rejects.
\<close>

fun all_clear :: "WorldMap \<Rightarrow> (int \<times> int) list \<Rightarrow> bool \<Rightarrow> error + bool" where
  "all_clear world [] clear = Inr clear"
| "all_clear world (c # cs) clear =
     (case lightPasses world (fst c) (snd c) of
        Inl e \<Rightarrow> Inl e
      | Inr b \<Rightarrow> all_clear world cs (if \<not> b then False else clear))"

definition hasLineOfSight :: "'g ROT \<Rightarrow> WorldMap \<Rightarrow> Position \<Rightarrow> Position \<Rightarrow> error + bool" where
  "hasLineOfSight rot world start end_pos =
     (case astar rot (lightPasses world) (px end_pos, py end_pos) (px start, py start) of
        Inl e \<Rightarrow> Inl e
      | Inr path \<Rightarrow> all_clear world path True)"

section \<open>GameScreen.tsx: the host's side of the peer connection\<close>

record PlayerCharacter =
  pname :: string
  profession :: string
  perk :: string

datatype Role = user | model | system

record ChatMessage =
  mid :: string
  role :: Role
  mtext :: string
  imageUrl :: "string option"
  mtimestamp :: int

text \<open>\<open>PeerData\<close> (types.ts), the type of the packets that \<open>GameScreen\<close> sends and handles.\<close>

datatype PeerData =
  STATE_SYNC GameState "ChatMessage list"
  | ACTION string
  | HANDSHAKE PlayerCharacter

text \<open>
  \<open>GameMessage\<close> (peerGameProtocol.ts), the message union of the protocol module. Its
  variants carry the prefix \<open>GM\<close> here; \<open>GameScreen\<close> uses none of them.
\<close>

datatype RequestReason = out_of_sync | reconnect | initial

datatype ActionKind = explore | combat_action | inventory_action | custom

datatype ActionPayload = Combat_payload CombatAction | Text_payload string

datatype CombatOutcome = outcome_victory | outcome_defeat | outcome_fled

datatype GameMessage =
  GM_HANDSHAKE PlayerCharacter string
  | GM_HANDSHAKE_ACK string string GameState
  | GM_STATE_SYNC GameState "ChatMessage list" int
  | GM_STATE_REQUEST RequestReason
  | GM_GAME_ACTION string ActionKind ActionPayload int
  | GM_ACTION_RESULT string bool "CombatResult list" GameState
  | GM_ACTION_REJECTED string string GameState
  | GM_COMBAT_START "string list" bool
  | GM_COMBAT_UPDATE GameState "CombatResult list"
  | GM_COMBAT_END CombatOutcome "(int \<times> string list) option"
  | GM_PLAYER_MESSAGE string string
  | GM_PLAYER_DISCONNECTED string
  | GM_PING int
  | GM_PONG int
  | GM_ERROR string string






section \<open>Example inputs and statement-level definitions\<close>

definition walker :: Enemy where
  "walker = \<lparr>eid = ''z1'', ename = ''Walker'', ehp = 30, emaxHp = 30, status = ''Active'',
             intent = Some ''Lunge Attack'', erange = Some Near\<rparr>"


text \<open>\<open>INITIAL_GAME_STATE\<close> of constants.ts, in combat against the given enemies.\<close>

definition combat_state :: "Enemy list \<Rightarrow> GameState" where
  "combat_state es =
     \<lparr>hp = 100, maxHp = 100, infectionLevel = 0, supplies = 5, day = 1,
      time_of_day = ''Morning'', location = ''Safehouse (Basement)'',
      inventory = [''Flashlight'', ''Rusty Pipe'', ''Bandages''],
      equippedWeapon = Some ''Rusty Pipe'',
      skills = [''Melee'' \<mapsto> 1, ''Firearms'' \<mapsto> 1, ''Stealth'' \<mapsto> 1, ''Medical'' \<mapsto> 1,
                ''Scavenging'' \<mapsto> 1],
      phase = combat, actionPoints = 3, maxActionPoints = 3, enemies = es,
      lastActionSummary = ''The simulation begins.''\<rparr>"

text \<open>An attack that hits (0), is not critical (0.5) and has variance factor 0 (0.5).\<close>

definition plain_hit_rolls :: rolls where
  "plain_hit_rolls = 0 ## sconst (1 / 2)"

text \<open>
  What \<open>processAttack\<close> reads from the state before it rolls: the weapon
  (\<open>equippedWeapon || 'Fists'\<close>), whether it is a firearm, the level of the skill that goes
  with it, and the jam chance of a firearm at that level.
\<close>

definition attack_weapon :: "Engine \<Rightarrow> string" where
  "attack_weapon eng =
     (if truthy (equippedWeapon (gameState eng)) then the (equippedWeapon (gameState eng))
      else ''Fists'')"

definition attack_isFirearm :: "Engine \<Rightarrow> bool" where
  "attack_isFirearm eng = isFirearm (Some (attack_weapon eng))"

definition attack_skillLevel :: "Engine \<Rightarrow> int" where
  "attack_skillLevel eng =
     skill_or_1 (skills (gameState eng) (if attack_isFirearm eng then ''Firearms'' else ''Melee''))"

definition jamChance :: "int \<Rightarrow> real" where
  "jamChance lvl = (if lvl \<le> 3 then firearms_jamChance_1to3 else firearms_jamChance_4to7)"

abbreviation AP :: "Engine \<Rightarrow> int" where
  "AP eng \<equiv> playerActionPoints (combatState eng)"

text \<open>Whether a list of results has one of the given type.\<close>

definition has_type :: "ResultType \<Rightarrow> CombatResult list \<Rightarrow> bool" where
  "has_type ty res = (\<exists>r \<in> set res. rtype r = ty)"

definition flee_action :: CombatAction where
  "flee_action = \<lparr>atype = flee, targetId = None, itemId = None, direction = None\<rparr>"

definition defend_action :: CombatAction where
  "defend_action = \<lparr>atype = defend, targetId = None, itemId = None, direction = None\<rparr>"

definition attack_action :: "string \<Rightarrow> CombatAction" where
  "attack_action tid = \<lparr>atype = attack, targetId = Some tid, itemId = None, direction = None\<rparr>"

definition use_item_action :: "string \<Rightarrow> CombatAction" where
  "use_item_action item =
     \<lparr>atype = use_item, targetId = None, itemId = Some item, direction = None\<rparr>"

text \<open>The initial state with the Melee skill at level 8, where executions are possible.\<close>

definition veteran_state :: GameState where
  "veteran_state = (combat_state [walker])\<lparr>skills := [''Melee'' \<mapsto> 8]\<rparr>"






text \<open>The result of using an item that is not a healing item, and the test for one.\<close>

definition cannot_use_result :: "string \<Rightarrow> CombatResult" where
  "cannot_use_result item = mk_result False heal (Msg_cannot_be_used item)"

definition is_healing_item :: "string \<Rightarrow> bool" where
  "is_healing_item item =
     (str_includes (toLowerCase item) ''bandage'' \<or> str_includes (toLowerCase item) ''medkit'' \<or>
      str_includes (toLowerCase item) ''heal'')"

text \<open>
  \<open>visible \<subseteq> explored\<close> on a grid and on a world. \<open>flags_respected ts ts'\<close>: the grid \<open>ts'\<close>
  has the shape of \<open>ts\<close>, every tile explored in \<open>ts\<close> is explored in \<open>ts'\<close>, and every tile
  that is visible and unexplored in \<open>ts'\<close> was so in \<open>ts\<close>.
\<close>

definition tiles_ok :: "Tile list list \<Rightarrow> bool" where
  "tiles_ok ts = list_all (list_all (\<lambda>t. visible t \<longrightarrow> explored t)) ts"

definition visible_explored :: "WorldMap \<Rightarrow> bool" where
  "visible_explored world = tiles_ok (tiles world)"

definition flags_respected :: "Tile list list \<Rightarrow> Tile list list \<Rightarrow> bool" where
  "flags_respected ts ts' =
     (length ts' = length ts \<and>
      (\<forall>y < length ts. length (ts' ! y) = length (ts ! y) \<and>
         (\<forall>x < length (ts ! y).
            (explored (ts ! y ! x) \<longrightarrow> explored (ts' ! y ! x)) \<and>
            (visible (ts' ! y ! x) \<and> \<not> explored (ts' ! y ! x) \<longrightarrow>
               visible (ts ! y ! x) \<and> \<not> explored (ts ! y ! x)))))"

text \<open>A world whose grid has exactly \<open>height\<close> rows of \<open>width\<close> tiles, as the generators build it.\<close>

definition rectangular :: "WorldMap \<Rightarrow> bool" where
  "rectangular world =
     (length (tiles world) = nat (height world) \<and>
      list_all (\<lambda>row. length row = nat (width world)) (tiles world))"

text \<open>
  A grid of \<open>n\<close> rows of \<open>m\<close> tiles none of which is visible. The generators build such a
  grid and only change the type and the resources of its tiles.
\<close>

definition unseen_grid :: "nat \<Rightarrow> nat \<Rightarrow> Tile list list \<Rightarrow> bool" where
  "unseen_grid n m ts =
     (length ts = n \<and>
      list_all (\<lambda>row. length row = m \<and> list_all (\<lambda>t. \<not> visible t) row) ts)"

text \<open>
  What the model assumes of \<open>ROT.Path.AStar\<close>: every cell it reports, other than its target,
  was accepted by the passability callback (the path finder only expands cells that the
  callback accepts; the target itself is not checked), and it throws only if the callback
  does.
\<close>

definition astar_contract :: "'g ROT \<Rightarrow> bool" where
  "astar_contract rot =
     (\<forall>passable goal start.
        (\<forall>path. astar rot passable goal start = Inr path \<longrightarrow>
           (\<forall>c \<in> set path. c = goal \<or> passable (fst c) (snd c) = Inr True)) \<and>
        ((\<forall>x y. passable x y \<noteq> Inl TypeError) \<longrightarrow>
           astar rot passable goal start \<noteq> Inl TypeError))"

text \<open>
  A small stand-in for the library, used where a statement needs a concrete one. Its path
  finder knows a single path, the diagonal detour from the start over the cell to its
  upper right, and reports it when its cells before the target are passable.
\<close>

definition toy_astar ::
  "(int \<Rightarrow> int \<Rightarrow> error + bool) \<Rightarrow> int \<times> int \<Rightarrow> int \<times> int \<Rightarrow> error + (int \<times> int) list"
where
  "toy_astar passable goal start =
     (if passable (fst start) (snd start) = Inr True \<and>
         passable (fst start + 1) (snd start - 1) = Inr True
      then Inr [start, (fst start + 1, snd start - 1), goal] else Inr [])"

definition toy_cells :: "int \<Rightarrow> int \<Rightarrow> int \<Rightarrow> (int \<times> int \<times> int) list" where
  "toy_cells w h v = concat (map (\<lambda>y. map (\<lambda>x. (x, y, v)) [0..w - 1]) [0..h - 1])"

definition toy_rot :: "nat ROT" where
  "toy_rot =
     \<lparr>setSeed = (\<lambda>n. nat \<lfloor>n\<rfloor>),
      getUniformInt = (\<lambda>lo hi g. (lo + int g mod (hi - lo + 1), Suc g)),
      digger = (\<lambda>w h g. (Inr (toy_cells w h (int g mod 2),
                                [\<lparr>doors = [(0, 0)], center = (w div 2, h div 2)\<rparr>]), Suc g)),
      cellular = (\<lambda>w h g. (Inr (toy_cells w h (int g mod 2)), Suc g)),
      fov = (\<lambda>lp x y r. Inr [(x, y), (x + 1, y), (x, y + 1)]),
      astar = toy_astar\<rparr>"

text \<open>
  A stand-in for \<open>parseFloat\<close> on the strings that \<open>Date.now().toString()\<close> produces:
  non-empty strings of decimal digits.
\<close>

definition digit_value :: "char \<Rightarrow> nat option" where
  "digit_value = map_of (zip ''0123456789'' [0 ..< 10])"

definition toy_parseFloat :: "string \<Rightarrow> real option" where
  "toy_parseFloat s =
     (if s \<noteq> [] \<and> list_all (\<lambda>c. digit_value c \<noteq> None) s
      then Some (of_nat (foldl (\<lambda>n c. 10 * n + the (digit_value c)) 0 s)) else None)"


text \<open>
  A corridor of five floor tiles whose last tile is marked visible without being explored,
  as a world restored from elsewhere can be.
\<close>

definition stale_world :: WorldMap where
  "stale_world =
     \<lparr>width = 5, height = 1,
      tiles = [[blank_tile tile_floor, blank_tile tile_floor, blank_tile tile_floor,
                blank_tile tile_floor, (blank_tile tile_floor)\<lparr>visible := True\<rparr>]],
      seed = ''12345''\<rparr>"

text \<open>A 3 by 3 world of floor tiles with a wall in the middle.\<close>

definition walled_world :: WorldMap where
  "walled_world =
     \<lparr>width = 3, height = 3,
      tiles = [[blank_tile tile_floor, blank_tile tile_floor, blank_tile tile_floor],
               [blank_tile tile_floor, blank_tile wall, blank_tile tile_floor],
               [blank_tile tile_floor, blank_tile tile_floor, blank_tile tile_floor]],
      seed = ''12345''\<rparr>"



section \<open>Properties of the combat engine\<close>

subsection \<open>Rounding to double precision\<close>

lemma fl_0: "fl 0 = 0" by (simp add: fl_def)

lemma fl_at:
  assumes "2 powr of_int k \<le> \<bar>x\<bar>" and "\<bar>x\<bar> < 2 powr (of_int k + 1)"
  shows "fl x = of_int (round_even (x / 2 powr of_int (k - 52))) * 2 powr of_int (k - 52)"
proof -
  have pos: "0 < \<bar>x\<bar>" using assms(1) powr_gt_zero[of 2 "of_int k"] by linarith
  then have "\<lfloor>Transcendental.log 2 \<bar>x\<bar>\<rfloor> = k"
    using assms by (simp add: floor_log_eq_powr_iff)
  moreover have "x \<noteq> 0" using pos by simp
  ultimately show ?thesis by (simp add: fl_def)
qed

lemma fl_down:
  assumes "2 ^ 52 \<le> \<bar>x\<bar> * 2 ^ n" and "\<bar>x\<bar> * 2 ^ n < 2 ^ 53"
  shows "fl x = of_int (round_even (x * 2 ^ n)) / 2 ^ n"
proof -
  have p: "(2::real) powr of_int (- int n) = 1 / 2 ^ n"
    by (simp add: powr_minus powr_realpow inverse_eq_divide)
  have q: "(2::real) powr of_int (52 - int n) = 2 ^ 52 / 2 ^ n"
    by (simp add: powr_diff powr_realpow flip: powr_realpow)
  have q1: "(2::real) powr (of_int (52 - int n) + 1) = 2 ^ 53 / 2 ^ n"
    by (simp add: powr_diff powr_add powr_realpow)
  have a: "2 powr of_int (52 - int n) \<le> \<bar>x\<bar>"
    unfolding q using assms(1) by (simp add: field_simps)
  have b: "\<bar>x\<bar> < 2 powr (of_int (52 - int n) + 1)"
    unfolding q1 using assms(2) by (simp add: field_simps)
  have r: "52 - int n - 52 = - int n" by simp
  from fl_at[OF a b] show ?thesis
    unfolding r p by simp
qed

lemma round_even_bounds: "\<lfloor>y\<rfloor> \<le> round_even y" "round_even y \<le> \<lfloor>y\<rfloor> + 1"
  by (simp_all add: round_even_def Let_def)

lemma round_even_le: "y \<le> of_int n \<Longrightarrow> round_even y \<le> n"
proof -
  assume a: "y \<le> of_int n"
  show ?thesis
  proof (cases "y = of_int n")
    case True
    then show ?thesis by (simp add: round_even_def)
  next
    case False
    with a have "y < of_int n" by simp
    then have "\<lfloor>y\<rfloor> < n" by (simp add: floor_less_iff)
    with round_even_bounds(2)[of y] show ?thesis by simp
  qed
qed

lemma round_even_ge: "of_int n \<le> y \<Longrightarrow> n \<le> round_even y"
proof -
  assume "of_int n \<le> y"
  then have "n \<le> \<lfloor>y\<rfloor>" by (simp add: le_floor_iff)
  with round_even_bounds(1)[of y] show ?thesis by simp
qed

text \<open>The exponent of a nonzero number.\<close>

lemma fl_exponent:
  assumes "x \<noteq> 0"
  defines "k \<equiv> \<lfloor>Transcendental.log 2 \<bar>x\<bar>\<rfloor>"
  shows "2 powr of_int k \<le> \<bar>x\<bar>" and "\<bar>x\<bar> < 2 powr (of_int k + 1)"
  using assms floor_log_eq_powr_iff[of "\<bar>x\<bar>" 2 k] by simp_all

lemma fl_nonneg: "0 \<le> x \<Longrightarrow> 0 \<le> fl x"
proof (cases "x = 0")
  case True then show ?thesis by (simp add: fl_def)
next
  case False
  assume "0 \<le> x"
  then have "0 \<le> x / 2 powr of_int (\<lfloor>Transcendental.log 2 \<bar>x\<bar>\<rfloor> - 52)" by simp
  then have "0 \<le> round_even (x / 2 powr of_int (\<lfloor>Transcendental.log 2 \<bar>x\<bar>\<rfloor> - 52))"
    using round_even_ge[of 0] by simp
  then show ?thesis using False by (simp add: fl_def Let_def)
qed

lemma fl_pos: "0 < x \<Longrightarrow> 0 < fl x"
proof -
  assume x: "0 < x"
  define k where "k = \<lfloor>Transcendental.log 2 \<bar>x\<bar>\<rfloor>"
  have k: "2 powr of_int k \<le> x" using fl_exponent(1)[of x] x by (simp add: k_def)
  have "2 powr of_int k / 2 powr of_int (k - 52) \<le> x / 2 powr of_int (k - 52)"
    using k by (simp add: divide_right_mono)
  moreover have "2 powr of_int k / 2 powr of_int (k - 52) = (2::real) ^ 52"
    by (simp add: powr_diff [symmetric] powr_realpow flip: powr_realpow)
  ultimately have "of_int (2 ^ 52) \<le> x / 2 powr of_int (k - 52)" by simp
  then have "2 ^ 52 \<le> round_even (x / 2 powr of_int (k - 52))" by (rule round_even_ge)
  then have "0 < round_even (x / 2 powr of_int (k - 52))" by simp
  then have "(0::real) < of_int (round_even (x / 2 powr of_int (k - 52))) * 2 powr of_int (k - 52)"
    by simp
  then show ?thesis using x by (simp add: fl_def Let_def k_def)
qed

lemma fl_1: "fl 1 = 1"
  using fl_down[of 1 52] by (simp add: round_even_def)

lemma fl_8: "fl 8 = 8"
  using fl_down[of 8 49] by (simp add: round_even_def)

lemma fl_10: "fl 10 = 10"
  using fl_down[of 10 49] by (simp add: round_even_def)

lemma fl_22: "fl 22 = 22"
  using fl_down[of 22 48] by (simp add: round_even_def)

lemma round_even_of_int: "round_even (of_int n) = n"
  by (simp add: round_even_def)

lemma fl_abs_le:
  assumes "\<bar>x\<bar> \<le> 2 ^ m"
  shows "\<bar>fl x\<bar> \<le> 2 ^ m"
proof (cases "x = 0")
  case True
  then show ?thesis by (simp add: fl_def)
next
  case False
  define k where "k = \<lfloor>Transcendental.log 2 \<bar>x\<bar>\<rfloor>"
  define u :: real where "u = 2 powr of_int (k - 52)"
  have u: "0 < u" by (simp add: u_def)
  have lo: "2 powr of_int k \<le> \<bar>x\<bar>" and hi: "\<bar>x\<bar> < 2 powr (of_int k + 1)"
    using fl_exponent[OF False] by (simp_all add: k_def)
  have flx: "fl x = of_int (round_even (x / u)) * u"
    using False by (simp add: fl_def Let_def k_def u_def)
  have u53: "2 ^ 53 * u = 2 powr (of_int k + 1)"
    by (simp add: u_def powr_diff powr_add powr_realpow)
  have u52: "2 ^ 52 * u = 2 powr of_int k"
    by (simp add: u_def powr_diff powr_realpow)
  have "(2::real) powr of_int k \<le> 2 powr of_int (int m)"
    using lo assms by (simp add: powr_realpow)
  then have km: "k \<le> int m" by simp
  show ?thesis
  proof (cases "k = int m")
    case True
    then have km2: "2 powr of_int k = (2::real) ^ m" by (simp add: powr_realpow)
    with lo assms have "\<bar>x\<bar> = 2 powr of_int k" by linarith
    with u52 have ax: "\<bar>x\<bar> = 2 ^ 52 * u" by linarith
    then have "\<bar>x / u\<bar> = 2 ^ 52" using u by (simp add: field_simps)
    then have "x / u = of_int (2 ^ 52) \<or> x / u = of_int (- (2 ^ 52))" by auto
    then have "\<bar>round_even (x / u)\<bar> = 2 ^ 52"
      using round_even_of_int[of "2 ^ 52"] round_even_of_int[of "- (2 ^ 52)"] by auto
    then have "\<bar>fl x\<bar> = 2 ^ 52 * u"
      using u by (simp add: flx abs_mult)
    also have "\<dots> = 2 ^ m" using u52 km2 by linarith
    finally show ?thesis by simp
  next
    case False
    with km have k1: "k + 1 \<le> int m" by simp
    define y where "y = x / u"
    have "\<bar>x\<bar> / u < 2 ^ 53"
      using hi u u53 by (simp add: field_simps)
    then have "\<bar>y\<bar> < 2 ^ 53" using u by (simp add: y_def)
    then have "y \<le> of_int (2 ^ 53)" and "of_int (- (2 ^ 53)) \<le> y" by simp_all
    then have "round_even y \<le> 2 ^ 53" and "- (2 ^ 53) \<le> round_even y"
      using round_even_le round_even_ge by blast+
    then have "\<bar>round_even y\<bar> \<le> 2 ^ 53" by simp
    then have "\<bar>of_int (round_even y) :: real\<bar> \<le> of_int (2 ^ 53)"
      unfolding of_int_abs [symmetric] by (rule iffD2[OF of_int_le_iff])
    then have "\<bar>of_int (round_even (x / u)) :: real\<bar> \<le> 2 ^ 53" by (simp add: y_def)
    then have "\<bar>fl x\<bar> \<le> 2 ^ 53 * u"
      using u by (simp add: flx abs_mult mult_right_mono)
    also have "\<dots> = (2::real) powr (of_int (k + 1))" using u53 by simp
    also have "\<dots> \<le> (2::real) powr of_int (int m)" using k1 by (simp del: of_int_add)
    also have "\<dots> = 2 ^ m" by (simp add: powr_realpow)
    finally show ?thesis .
  qed
qed

lemma variance_factor_range:
  assumes "0 \<le> r" and "r < 1"
  shows "- 1 \<le> fl (fl (r * 2) - 1)" and "fl (fl (r * 2) - 1) \<le> 1"
proof -
  have "\<bar>r * 2\<bar> \<le> 2 ^ 1" using assms by simp
  then have "\<bar>fl (r * 2)\<bar> \<le> 2 ^ 1" by (rule fl_abs_le)
  moreover have "0 \<le> fl (r * 2)" using assms by (simp add: fl_nonneg)
  ultimately have "\<bar>fl (r * 2) - 1\<bar> \<le> 2 ^ 0" by simp
  then have "\<bar>fl (fl (r * 2) - 1)\<bar> \<le> 2 ^ 0" by (rule fl_abs_le)
  then show "- 1 \<le> fl (fl (r * 2) - 1)" and "fl (fl (r * 2) - 1) \<le> 1" by simp_all
qed

subsection \<open>Constants and rolls\<close>

lemma criticalHitChance_value: "criticalHitChance = 3602879701896397 / 36028797018963968"
  unfolding criticalHitChance_def
  using fl_down[of "1 / 10" 56] by (simp add: round_even_def)

lemma isFirearm_Rusty_Pipe: "isFirearm (Some ''Rusty Pipe'') = False"
  by (simp add: isFirearm_def truthy_def toLowerCase_def lower_char_def)

lemma calculateSkillSuccessChance_nonneg: "0 \<le> l \<Longrightarrow> 0 \<le> calculateSkillSuccessChance l"
  by (simp add: calculateSkillSuccessChance_def Let_def baseSuccessChance_def bonusPerLevel_def
        maxSkillLevel_def fl_nonneg)


lemma fleeBaseChance_pos: "0 < fleeBaseChance"
  by (simp add: fleeBaseChance_def fl_pos)

lemma criticalHitChance_pos: "0 < criticalHitChance"
  by (simp add: criticalHitChance_def fl_pos)

subsection \<open>Attack damage\<close>

lemma find_update_target:
  assumes "find (\<lambda>e. eid e = tid) es = Some t" and "\<And>e. eid (f e) = eid e"
  shows "find (\<lambda>e. eid e = tid) (update_target tid f es) = Some (f t)"
  using assms by (induction es) (auto split: if_splits)

lemma processAttack_unfold:
  assumes "find (\<lambda>e. eid e = tid) (enemies (gameState eng)) = Some target"
  shows "processAttack tid eng rs =
     (let isF = attack_isFirearm eng; lvl = attack_skillLevel eng;
          rs1 = (if isF \<and> lvl \<le> 7 then stl rs else rs)
      in if isF \<and> lvl \<le> 7 \<and> shd rs < jamChance lvl
         then ([mk_result False jam (Msg_jammed (attack_weapon eng))], eng, rs1)
         else if shd rs1 > calculateSkillSuccessChance lvl
         then ([(mk_result False damage (Msg_missed (ename target)))
                  \<lparr>rtargetId := Some tid, targetName := Some (ename target)\<rparr>], eng, stl rs1)
         else attack_hit tid target isF lvl eng (stl rs1))"
  unfolding processAttack_def assms attack_isFirearm_def attack_skillLevel_def attack_weapon_def
    jamChance_def
  by (simp add: Let_def)

lemma attack_hit_unfold:
  "attack_hit tid target isF lvl eng rs2 =
     (let crit = fst (rollCriticalHit lvl (if isF then firearms else melee) rs2);
          drawn = (\<not> isF \<and> lvl \<ge> 8 \<and> crit)
      in if drawn \<and> shd (stl rs2) < melee_executionChance
         then (fst (attack_execute tid target isF lvl eng),
               snd (attack_execute tid target isF lvl eng), stl (stl rs2))
         else attack_damage tid target isF lvl crit eng
                (if drawn then stl (stl rs2) else stl rs2))"
  by (simp add: attack_hit_def rollCriticalHit_def Let_def case_prod_beta)

lemma attack_damage_first:
  "hd (fst (attack_damage tid target isF lvl crit eng rs4)) =
     (let dmg = fst (calculateDamage baseDamage (targetDefense target) crit rs4);
          newHp = max 0 (fl (ehp target - of_int dmg))
      in (mk_result True damage (Msg_dealt dmg (ename target) newHp (emaxHp target)))
           \<lparr>amount := Some (of_int dmg), rtargetId := Some tid,
            targetName := Some (ename target), critical := Some crit\<rparr>)"
  by (simp add: attack_damage_def Let_def case_prod_beta targetDefense_def)

lemma attack_damage_target:
  assumes "find (\<lambda>e. eid e = tid) (enemies (gameState eng)) = Some target"
  shows "map_option ehp (find (\<lambda>e. eid e = tid)
            (enemies (gameState (fst (snd (attack_damage tid target isF lvl crit eng rs4)))))) =
         Some (max 0 (fl (ehp target
                 - of_int (fst (calculateDamage baseDamage (targetDefense target) crit rs4)))))"
proof -
  define dmg where "dmg = fst (calculateDamage baseDamage (targetDefense target) crit rs4)"
  define es1 where "es1 = update_target tid (\<lambda>e. e\<lparr>ehp := max 0 (fl (ehp target - of_int dmg))\<rparr>)
                            (enemies (gameState eng))"
  have f1: "find (\<lambda>e. eid e = tid) es1 = Some (target\<lparr>ehp := max 0 (fl (ehp target - of_int dmg))\<rparr>)"
    unfolding es1_def by (rule find_update_target[OF assms]) simp
  have f2: "find (\<lambda>e. eid e = tid) (update_target tid (\<lambda>e. e\<lparr>status := ''Stunned''\<rparr>) es1) =
              Some (target\<lparr>ehp := max 0 (fl (ehp target - of_int dmg)), status := ''Stunned''\<rparr>)"
    using find_update_target[OF f1, of "\<lambda>e. e\<lparr>status := ''Stunned''\<rparr>"] by simp
  have "enemies (gameState (fst (snd (attack_damage tid target isF lvl crit eng rs4)))) = es1 \<or>
        enemies (gameState (fst (snd (attack_damage tid target isF lvl crit eng rs4)))) =
          update_target tid (\<lambda>e. e\<lparr>status := ''Stunned''\<rparr>) es1"
    by (simp add: attack_damage_def Let_def case_prod_beta set_enemies_def refund_AP_def
          set_AP_def es1_def dmg_def targetDefense_def)
  then show ?thesis using f1 f2 by (auto simp: dmg_def)
qed

lemma calculateDamage_eq:
  "fst (calculateDamage base d crit rs) =
     \<lfloor>if crit then fl (max 1 (fl (fl (base * fl (1 + fl (fl (fl (shd rs * 2) - 1) * fl 0.2))) - d)) * 1.5)
      else max 1 (fl (fl (base * fl (1 + fl (fl (fl (shd rs * 2) - 1) * fl 0.2))) - d))\<rfloor>"
  by (simp add: calculateDamage_def Let_def damageVariance_def criticalMultiplier_def)


text \<open>
  Rounding matters: against an enemy with 52 \<open>maxHp\<close> and the variance roll 0.05, the
  damage before the floor is just below 3 in doubles (and exactly 3 over the reals).
\<close>

lemma calculateDamage_rounding_example:
  "fst (calculateDamage 10 (fl (52 / 10)) False (fl (5 / 100) ## rs)) = 2"
proof -
  have r: "fl (1 / 20) = 3602879701896397 / 72057594037927936"
    using fl_down[of "1 / 20" 57] by (simp add: round_even_def)
  have c: "fl (1 / 5) = 3602879701896397 / 18014398509481984"
    using fl_down[of "1 / 5" 55] by (simp add: round_even_def)
  have d: "fl (26 / 5) = 5854679515581645 / 1125899906842624"
    using fl_down[of "26 / 5" 50] by (simp add: round_even_def)
  have a1: "fl (3602879701896397 / 36028797018963968) = 3602879701896397 / 36028797018963968"
    using fl_down[of "3602879701896397 / 36028797018963968" 56] by (simp add: round_even_def)
  have a2: "fl (- (32425917317067571 / 36028797018963968)) = - (8106479329266893 / 9007199254740992)"
    using fl_down[of "- (32425917317067571 / 36028797018963968)" 53] by (simp add: round_even_def)
  have a3: "fl (- (29206669829258407752355848084521 / 162259276829213363391578010288128)) = - (6485183463413515 / 36028797018963968)"
    using fl_down[of "- (29206669829258407752355848084521 / 162259276829213363391578010288128)" 55] by (simp add: round_even_def)
  have a4: "fl (29543613555550453 / 36028797018963968) = 7385903388887613 / 9007199254740992"
    using fl_down[of "29543613555550453 / 36028797018963968" 53] by (simp add: round_even_def)
  have a5: "fl (36929516944438065 / 4503599627370496) = 2308094809027379 / 281474976710656"
    using fl_down[of "36929516944438065 / 4503599627370496" 49] by (simp add: round_even_def)
  have a6: "fl (3377699720527871 / 1125899906842624) = 3377699720527871 / 1125899906842624"
    using fl_down[of "3377699720527871 / 1125899906842624" 51] by (simp add: round_even_def)
  show ?thesis
    by (simp add: calculateDamage_eq r c d a1 a2 a3 a4 a5 a6)
qed


text \<open>
  C6. An attack on an enemy that is in the enemy list, with any weapon, skill level and
  rolls. If the weapon does not jam, the attack does not miss and the target is not
  executed, the first result is a successful \<open>damage\<close> of amount
  \<open>floor(max(1, 10 \<times> (1 + v \<times> 0.2) \<minus> d) \<times> (1.5 if critical else 1))\<close>, every operation
  rounded to a double, where \<open>v = 2 r \<minus> 1\<close> is the variance factor from the roll \<open>r\<close> that
  follows the hit, critical and execution rolls, and \<open>d\<close> is the target's defense (2, or
  \<open>maxHp / 10\<close> above 50 \<open>maxHp\<close>); the result is marked critical exactly if the critical
  roll succeeded, and the target's hit points drop by the amount, not below 0. The variance
  factor of a roll in \<open>[0, 1)\<close> lies in \<open>[\<minus>1, 1]\<close>. With variance factor 0, defense 2 and no
  critical hit the attack deals exactly 8.
\<close>

theorem attack_damage_formula:
  assumes found: "find (\<lambda>e. eid e = tid) (enemies (gameState eng)) = Some target"
  shows
  "(let isF = attack_isFirearm eng; lvl = attack_skillLevel eng;
        rs1 = (if isF \<and> lvl \<le> 7 then stl rs else rs);
        jammed = (isF \<and> lvl \<le> 7 \<and> shd rs < jamChance lvl);
        missed = (shd rs1 > calculateSkillSuccessChance lvl);
        crit = fst (rollCriticalHit lvl (if isF then firearms else melee) (stl rs1));
        drawn = (\<not> isF \<and> lvl \<ge> 8 \<and> crit);
        executed = (drawn \<and> shd (stl (stl rs1)) < melee_executionChance);
        r = shd (if drawn then stl (stl (stl rs1)) else stl (stl rs1));
        v = fl (fl (r * 2) - 1);
        d = (if emaxHp target > 50 then fl (emaxHp target / 10) else 2);
        m = max 1 (fl (fl (10 * fl (1 + fl (v * fl 0.2))) - d));
        dmg = \<lfloor>if crit then fl (m * 1.5) else m\<rfloor>;
        (res, eng', rs') = processAttack tid eng rs
    in \<not> jammed \<and> \<not> missed \<and> \<not> executed \<longrightarrow>
         success (hd res) \<and> rtype (hd res) = damage \<and>
         amount (hd res) = Some (of_int dmg) \<and> critical (hd res) = Some crit \<and>
         map_option ehp (find (\<lambda>e. eid e = tid) (enemies (gameState eng')))
           = Some (max 0 (fl (ehp target - of_int dmg))) \<and>
         (0 \<le> r \<and> r < 1 \<longrightarrow> - 1 \<le> v \<and> v \<le> 1) \<and>
         (v = 0 \<and> d = 2 \<and> \<not> crit \<longrightarrow> dmg = 8))"
proof -
  define isF where "isF = attack_isFirearm eng"
  define lvl where "lvl = attack_skillLevel eng"
  define rs1 where "rs1 = (if isF \<and> lvl \<le> 7 then stl rs else rs)"
  define crit where "crit = fst (rollCriticalHit lvl (if isF then firearms else melee) (stl rs1))"
  define drawn where "drawn = (\<not> isF \<and> lvl \<ge> 8 \<and> crit)"
  define rs4 where "rs4 = (if drawn then stl (stl (stl rs1)) else stl (stl rs1))"
  define v where "v = fl (fl (shd rs4 * 2) - 1)"
  define d where "d = (if emaxHp target > 50 then fl (emaxHp target / 10) else 2)"
  define m where "m = max 1 (fl (fl (10 * fl (1 + fl (v * fl 0.2))) - d))"
  define dmg where "dmg = \<lfloor>if crit then fl (m * 1.5) else m\<rfloor>"
  have cd: "fst (calculateDamage baseDamage (targetDefense target) crit rs4) = dmg"
    by (simp add: calculateDamage_eq baseDamage_def targetDefense_def dmg_def m_def v_def d_def)
  have rng: "0 \<le> shd rs4 \<and> shd rs4 < 1 \<longrightarrow> - 1 \<le> v \<and> v \<le> 1"
    using variance_factor_range[of "shd rs4"] by (simp add: v_def)
  have eight: "v = 0 \<and> d = 2 \<and> \<not> crit \<longrightarrow> dmg = 8"
    by (simp add: dmg_def m_def fl_1 fl_10 fl_8 fl_0)
  have main: "\<not> (isF \<and> lvl \<le> 7 \<and> shd rs < jamChance lvl) \<Longrightarrow>
        \<not> shd rs1 > calculateSkillSuccessChance lvl \<Longrightarrow>
        \<not> (drawn \<and> shd (stl (stl rs1)) < melee_executionChance) \<Longrightarrow>
        processAttack tid eng rs = attack_damage tid target isF lvl crit eng rs4"
    unfolding processAttack_unfold[OF found] attack_hit_unfold rs4_def drawn_def crit_def
      rs1_def lvl_def isF_def
    by (cases "attack_isFirearm eng") (auto simp: Let_def)
  show ?thesis
    unfolding Let_def isF_def[symmetric] lvl_def[symmetric] rs1_def[symmetric]
      crit_def[symmetric] drawn_def[symmetric] rs4_def[symmetric] v_def[symmetric]
      d_def[symmetric] m_def[symmetric] dmg_def[symmetric]
    using rng eight attack_damage_first[of tid target isF lvl crit eng rs4]
      attack_damage_target[OF found, of isF lvl crit rs4]
    by (auto simp: case_prod_beta main cd Let_def mk_result_def)
qed

text \<open>
  The initial state against a Walker (30 hit points, defense 2), attacked with the Rusty
  Pipe: the hit roll is 0, the critical roll 0.5 fails, the variance roll 0.5 gives the
  factor 0. The attack deals 8 and leaves the Walker 22 hit points.
\<close>

theorem attack_damage_formula_witness:
  "find (\<lambda>e. eid e = ''z1'') (enemies (gameState (new_CombatEngine (combat_state [walker]))))
     = Some walker \<and>
   (let (res, eng', rs') = processAttack ''z1'' (new_CombatEngine (combat_state [walker]))
                             plain_hit_rolls
    in success (hd res) \<and> rtype (hd res) = damage \<and> amount (hd res) = Some 8 \<and>
       critical (hd res) = Some False \<and>
       map_option ehp (find (\<lambda>e. eid e = ''z1'') (enemies (gameState eng'))) = Some 22)"
proof -
  let ?eng = "new_CombatEngine (combat_state [walker])"
  have found: "find (\<lambda>e. eid e = ''z1'') (enemies (gameState ?eng)) = Some walker"
    by (simp add: new_CombatEngine_def combat_state_def walker_def)
  have isF: "attack_isFirearm ?eng = False"
    by (simp add: attack_isFirearm_def attack_weapon_def new_CombatEngine_def combat_state_def
          truthy_def isFirearm_Rusty_Pipe)
  have lvl: "attack_skillLevel ?eng = 1"
    by (simp add: attack_skillLevel_def isF new_CombatEngine_def combat_state_def skill_or_1_def)
  have hit: "\<not> 0 > calculateSkillSuccessChance 1"
    using calculateSkillSuccessChance_nonneg[of 1] by simp
  have crit: "fst (rollCriticalHit 1 melee (sconst (1 / 2))) = False"
    by (simp add: rollCriticalHit_def Let_def criticalHitChance_value)
  have w: "emaxHp walker = 30" "ehp walker = 30" by (simp_all add: walker_def)
  from attack_damage_formula[OF found, of plain_hit_rolls] found hit
  show ?thesis
    by (simp add: Let_def isF lvl crit plain_hit_rolls_def w fl_1 fl_0 fl_10 fl_8 fl_22
          case_prod_beta)
qed

subsection \<open>Fleeing\<close>

lemma flee_success_state:
  assumes "cphase (combatState eng) = player_turn" and "1 \<le> AP eng"
    and "shd rs < fleeBaseChance"
  shows "cphase (combatState (fst (snd (processAction flee_action eng rs)))) =
           (if hp (gameState eng) \<le> 0 then defeat else victory) \<and>
         phase (gameState (fst (snd (processAction flee_action eng rs)))) = exploration \<and>
         enemies (gameState (fst (snd (processAction flee_action eng rs)))) = [] \<and>
         AP (fst (snd (processAction flee_action eng rs))) = AP eng"
  using assms
  by (simp add: processAction_def isActionValid_def flee_action_def dispatch_def processFlee_def
       deduct_AP_def mk_result_def checkCombatEnd_def Let_def)

lemma flee_failure_deducts:
  assumes "cphase (combatState eng) = player_turn" and "2 \<le> AP eng"
    and "\<not> shd rs < fleeBaseChance"
  shows "AP (fst (snd (processAction flee_action eng rs))) = AP eng - 1"
  using assms
  by (simp add: processAction_def isActionValid_def flee_action_def dispatch_def processFlee_def
       deduct_AP_def mk_result_def checkCombatEnd_def Let_def)

text \<open>
  C3. A successful flee (roll 0, below 0.6) from a fight against one Walker with 3 AP:
  the first result is \<open>flee_success\<close>, the game phase is exploration, the enemy list is
  empty and the 3 AP are kept, but the combat phase that \<open>processAction\<close> returns is
  \<open>victory\<close>, not \<open>fled\<close>: \<open>checkCombatEnd\<close> runs after \<open>processFlee\<close>, finds no living enemy
  and overwrites the phase.
\<close>

theorem flee_success_returns_victory:
  "(let (res, eng, rs) = processAction flee_action (new_CombatEngine (combat_state [walker]))
                           (sconst 0)
    in (map rtype res, cphase (combatState eng), phase (gameState eng),
        enemies (gameState eng), AP eng)) =
   ([flee_success], victory, exploration, [], 3)"
  by (simp add: processAction_def isActionValid_def flee_action_def dispatch_def processFlee_def
       deduct_AP_def mk_result_def checkCombatEnd_def Let_def new_CombatEngine_def
       combat_state_def fleeBaseChance_pos)

subsection \<open>Skill growth\<close>

lemma attack_damage_skills:
  "skills (gameState (fst (snd (attack_damage tid target isF lvl c eng rs)))) =
     (if c \<and> lvl < maxSkillLevel
      then (skills (gameState eng))((if isF then ''Firearms'' else ''Melee'') \<mapsto> lvl + 1)
      else skills (gameState eng))"
  by (simp add: attack_damage_def Let_def case_prod_beta set_enemies_def refund_AP_def
        set_AP_def skillGrowthOnCritical_def)

lemma attack_execute_skills:
  "skills (gameState (snd (attack_execute tid target isF lvl eng))) = skills (gameState eng)"
  by (simp add: attack_execute_def Let_def set_enemies_def refund_AP_def set_AP_def)

text \<open>
  C4. An attack with bare-hands skill Melee 8 whose hit, critical and execution rolls all
  succeed (rolls 0): the only result is an \<open>execution\<close> marked critical, and the Melee
  skill is still 8 afterwards. The execution branch returns before the skill increase.
\<close>

theorem execution_skips_skill_increase:
  "(let (res, eng, rs) = processAction (attack_action ''z1'') (new_CombatEngine veteran_state)
                           (sconst 0)
    in (map rtype res, map critical res, skills (gameState eng) ''Melee'')) =
   ([execution], [Some True], Some 8)"
proof -
  have hit: "\<not> 0 > calculateSkillSuccessChance 8"
    using calculateSkillSuccessChance_nonneg[of 8] by simp
  show ?thesis
    by (simp add: processAction_def isActionValid_def attack_action_def dispatch_def
         processAttack_def attack_hit_def attack_execute_def rollCriticalHit_def
         deduct_AP_def mk_result_def checkCombatEnd_def Let_def new_CombatEngine_def
         combat_state_def veteran_state_def walker_def truthy_def isFirearm_Rusty_Pipe
         skill_or_1_def hit criticalHitChance_pos melee_executionChance_def set_enemies_def)
qed

subsection \<open>The enemy turn\<close>








subsection \<open>Action points\<close>

lemma has_type_simps [simp]:
  "has_type ty [] = False"
  "has_type ty (r # res) = (rtype r = ty \<or> has_type ty res)"
  "has_type ty (res @ res') = (has_type ty res \<or> has_type ty res')"
  by (auto simp: has_type_def)

lemma AP_set_enemies [simp]: "AP (set_enemies es eng) = AP eng"
  by (simp add: set_enemies_def)

lemma AP_refund: "AP (refund_AP eng) = min (AP eng + 1) maxActionPoints_const"
  by (simp add: refund_AP_def set_AP_def)

lemma attack_execute_AP:
  "AP (snd (attack_execute tid target isF lvl eng)) =
     (if has_type ap_refund (fst (attack_execute tid target isF lvl eng))
      then min (AP eng + 1) maxActionPoints_const else AP eng)"
  "\<not> has_type flee_success (fst (attack_execute tid target isF lvl eng))"
  by (simp_all add: attack_execute_def Let_def AP_refund mk_result_def ap_refund_result_def)

lemma attack_damage_AP:
  "AP (fst (snd (attack_damage tid target isF lvl c eng rs))) =
     (if has_type ap_refund (fst (attack_damage tid target isF lvl c eng rs))
      then min (AP eng + 1) maxActionPoints_const else AP eng)"
  "\<not> has_type flee_success (fst (attack_damage tid target isF lvl c eng rs))"
  by (simp_all add: attack_damage_def Let_def case_prod_beta AP_refund mk_result_def
        ap_refund_result_def)

lemma attack_hit_AP:
  "AP (fst (snd (attack_hit tid target isF lvl eng rs))) =
     (if has_type ap_refund (fst (attack_hit tid target isF lvl eng rs))
      then min (AP eng + 1) maxActionPoints_const else AP eng)"
  "\<not> has_type flee_success (fst (attack_hit tid target isF lvl eng rs))"
  using attack_execute_AP[of tid target isF lvl eng] attack_damage_AP[of tid target isF lvl _ eng]
  by (simp_all add: attack_hit_def Let_def case_prod_beta)

lemma processAttack_AP:
  "AP (fst (snd (processAttack tid eng rs))) =
     (if has_type ap_refund (fst (processAttack tid eng rs))
      then min (AP eng + 1) maxActionPoints_const else AP eng)"
  "\<not> has_type flee_success (fst (processAttack tid eng rs))"
  using attack_hit_AP[of tid _ _ _ eng]
  by (simp_all add: processAttack_def Let_def case_prod_beta mk_result_def split: option.split)

lemma dispatch_AP:
  "AP (fst (snd (dispatch action eng rs))) =
     (if has_type ap_refund (fst (dispatch action eng rs))
      then min (AP eng + 1) maxActionPoints_const else AP eng)"
  using processAttack_AP(1)[of _ eng rs]
  by (cases "atype action")
     (simp_all add: dispatch_def processDefend_def processUseItem_def processFlee_def
        processMove_def Let_def mk_result_def)

lemma dispatch_flee_success:
  "has_type flee_success (fst (dispatch action eng rs)) =
     (atype action = flee \<and> shd rs < fleeBaseChance)"
  using processAttack_AP(2)[of _ eng rs]
  by (cases "atype action")
     (simp_all add: dispatch_def processDefend_def processUseItem_def processFlee_def
        processMove_def Let_def mk_result_def)

lemma deduct_AP_eq:
  "AP (deduct_AP action (fst (dispatch action eng rs)) eng1) =
     AP eng1 - (if has_type flee_success (fst (dispatch action eng rs)) then 0 else 1)"
  by (cases "atype action")
     (auto simp add: deduct_AP_def dispatch_def processDefend_def processUseItem_def
        processFlee_def processMove_def Let_def mk_result_def has_type_def
        dest: processAttack_AP(2)[unfolded has_type_def, simplified, rule_format]
        split: list.splits)

lemma enemy_loop_types:
  "r \<in> set (fst (enemy_loop d mx es h rs)) \<Longrightarrow> rtype r = enemy_attack"
  by (induction es arbitrary: h rs)
     (auto simp: case_prod_beta Let_def mk_result_def split: if_splits)

lemma processEnemyTurn_types:
  "\<not> has_type ap_refund (fst (processEnemyTurn eng rs))"
  "\<not> has_type flee_success (fst (processEnemyTurn eng rs))"
  by (auto simp: processEnemyTurn_def Let_def case_prod_beta has_type_def
           dest: enemy_loop_types)

lemma AP_processEnemyTurn: "AP (fst (snd (processEnemyTurn eng rs))) = baseActionPoints"
  by (simp add: processEnemyTurn_def Let_def case_prod_beta)

lemma AP_checkCombatEnd [simp]: "AP (checkCombatEnd eng) = AP eng"
  by (simp add: checkCombatEnd_def)

lemma isActionValid_AP: "isActionValid action eng \<Longrightarrow> 1 \<le> AP eng"
  by (simp add: isActionValid_def split: if_splits)

lemma processAction_results:
  assumes "isActionValid action eng"
  shows "has_type ap_refund (fst (processAction action eng rs)) =
           has_type ap_refund (fst (dispatch action eng rs))"
    and "has_type flee_success (fst (processAction action eng rs)) =
           has_type flee_success (fst (dispatch action eng rs))"
  using assms processEnemyTurn_types
  by (simp_all add: processAction_def Let_def case_prod_beta)

lemma AP_processAction:
  "AP (fst (snd (processAction action eng rs))) =
     (if \<not> isActionValid action eng then AP eng
      else let a = AP (deduct_AP action (fst (dispatch action eng rs))
                         (fst (snd (dispatch action eng rs))))
           in if a \<le> 0 then baseActionPoints else a)"
  by (simp add: processAction_def Let_def case_prod_beta AP_processEnemyTurn)

text \<open>
  C8, as the code has it. For every engine state, every action and all rolls: with less
  than 1 AP the action is rejected, and a rejected action leaves the engine as it was. A
  processed action returns a \<open>flee_success\<close> result exactly if it is a flee whose roll
  succeeds. Its AP afterwards is the AP before, plus 1 but at most the maximum of the
  balance table (3) if a refund (\<open>ap_refund\<close>) is among the results, minus 1 unless the
  flee succeeded; and if that is 0 or less, the enemy turn has run and the AP is the base
  value (3). Hence an AP between 0 and 3 stays between 0 and 3.
\<close>

theorem action_points_accounting:
  "(let (res, eng', rs') = processAction action eng rs;
        refunded = (\<exists>r \<in> set res. rtype r = ap_refund);
        fled = (\<exists>r \<in> set res. rtype r = flee_success);
        a = (if refunded then min (playerActionPoints (combatState eng) + 1) maxActionPoints_const
             else playerActionPoints (combatState eng)) - (if fled then 0 else 1)
    in (playerActionPoints (combatState eng) < 1 \<longrightarrow> \<not> isActionValid action eng) \<and>
       (\<not> isActionValid action eng \<longrightarrow> eng' = eng) \<and>
       (isActionValid action eng \<longrightarrow>
          (fled \<longleftrightarrow> atype action = flee \<and> shd rs < fleeBaseChance) \<and>
          playerActionPoints (combatState eng') = (if a \<le> 0 then baseActionPoints else a)) \<and>
       (0 \<le> playerActionPoints (combatState eng) \<and>
        playerActionPoints (combatState eng) \<le> maxActionPoints_const \<longrightarrow>
          0 \<le> playerActionPoints (combatState eng') \<and>
          playerActionPoints (combatState eng') \<le> maxActionPoints_const))"
proof -
  define res where "res = fst (processAction action eng rs)"
  define eng' where "eng' = fst (snd (processAction action eng rs))"
  define a where "a = (if has_type ap_refund res then min (AP eng + 1) maxActionPoints_const
                      else AP eng) - (if has_type flee_success res then 0 else 1)"
  have 1: "AP eng < 1 \<longrightarrow> \<not> isActionValid action eng"
    using isActionValid_AP[of action eng] by auto
  have 2: "\<not> isActionValid action eng \<longrightarrow> eng' = eng"
    by (simp add: eng'_def processAction_def)
  have 3: "isActionValid action eng \<longrightarrow>
             (has_type flee_success res \<longleftrightarrow> atype action = flee \<and> shd rs < fleeBaseChance) \<and>
             AP eng' = (if a \<le> 0 then baseActionPoints else a)"
    by (simp add: res_def eng'_def a_def processAction_results dispatch_flee_success
          AP_processAction deduct_AP_eq dispatch_AP Let_def)
  have 4: "0 \<le> AP eng \<and> AP eng \<le> maxActionPoints_const \<longrightarrow>
             0 \<le> AP eng' \<and> AP eng' \<le> maxActionPoints_const"
  proof (cases "isActionValid action eng")
    case False
    with 2 show ?thesis by simp
  next
    case True
    with 3 isActionValid_AP[OF True] show ?thesis
      by (auto simp: a_def baseActionPoints_def maxActionPoints_const_def split: if_splits)
  qed
  from 1 2 3 4 show ?thesis
    unfolding Let_def case_prod_beta res_def[symmetric] eng'_def[symmetric]
      has_type_def[symmetric] a_def[symmetric]
    by simp
qed

text \<open>Defending with 3 of 3 AP against one Walker: the action is processed and leaves 2 AP.\<close>

theorem action_points_accounting_witness:
  "isActionValid defend_action (new_CombatEngine (combat_state [walker])) \<and>
   playerActionPoints (combatState (new_CombatEngine (combat_state [walker]))) = 3 \<and>
   (let (res, eng', rs') = processAction defend_action (new_CombatEngine (combat_state [walker]))
                             (sconst 0)
    in map rtype res = [defend_result] \<and> playerActionPoints (combatState eng') = 2)"
proof -
  let ?eng = "new_CombatEngine (combat_state [walker])"
  have v: "isActionValid defend_action ?eng"
    by (simp add: isActionValid_def defend_action_def new_CombatEngine_def combat_state_def)
  have a: "playerActionPoints (combatState ?eng) = 3"
    by (simp add: new_CombatEngine_def combat_state_def)
  have r: "map rtype (fst (processAction defend_action ?eng (sconst 0))) = [defend_result]"
    using v a
    by (simp add: processAction_def dispatch_def defend_action_def processDefend_def
          deduct_AP_def mk_result_def Let_def)
  have nr: "\<not> (\<exists>r \<in> set (fst (processAction defend_action ?eng (sconst 0))). rtype r = ap_refund)"
    and nf: "\<not> (\<exists>r \<in> set (fst (processAction defend_action ?eng (sconst 0))).
                  rtype r = flee_success)"
    using r by (auto simp: map_eq_Cons_conv)
  from action_points_accounting[of defend_action ?eng "sconst 0"] v a r nr nf
  show ?thesis
    by (simp add: Let_def case_prod_beta maxActionPoints_const_def baseActionPoints_def)
qed

text \<open>
  C8 as the claim states it, for every combat state, fails. An engine built from a state
  with \<open>actionPoints\<close> \<open>\<minus>1\<close> rejects the action and keeps \<open>\<minus>1\<close>; one built with 5 action
  points ends at 4, above the maximum 3; and in a state whose own \<open>maxActionPoints\<close> is 2,
  defending with the last action point runs the enemy turn, which resets the AP to the base
  value 3 of the balance table, above the state's maximum.
\<close>

theorem action_points_state_counterexample:
  "playerActionPoints (combatState (fst (snd (processAction defend_action
      (new_CombatEngine ((combat_state [walker])\<lparr>actionPoints := - 1\<rparr>)) (sconst 0))))) = - 1 \<and>
   playerActionPoints (combatState (fst (snd (processAction defend_action
      (new_CombatEngine ((combat_state [walker])\<lparr>actionPoints := 5\<rparr>)) (sconst 0))))) = 4 \<and>
   playerActionPoints (combatState (fst (snd (processAction defend_action
      (new_CombatEngine ((combat_state [walker])\<lparr>actionPoints := 1, maxActionPoints := 2\<rparr>))
      (sconst 0))))) = 3 \<and>
   maxActionPoints (gameState (fst (snd (processAction defend_action
      (new_CombatEngine ((combat_state [walker])\<lparr>actionPoints := 1, maxActionPoints := 2\<rparr>))
      (sconst 0))))) = 2"
  by (simp add: processAction_def isActionValid_def defend_action_def dispatch_def
       processDefend_def deduct_AP_def endPlayerTurn_def processEnemyTurn_def
       checkCombatEnd_def new_CombatEngine_def combat_state_def walker_def is_stunned_def
       toLowerCase_def lower_char_def enemy_damage_def Let_def defenseDamageReduction_def
       baseActionPoints_def mk_result_def case_prod_beta)

subsection \<open>Items that cannot be used in combat\<close>

lemma inventory_checkCombatEnd:
  "inventory (gameState (checkCombatEnd eng)) = inventory (gameState eng)"
  by (simp add: checkCombatEnd_def)

lemma inventory_processEnemyTurn:
  "inventory (gameState (fst (snd (processEnemyTurn eng rs)))) = inventory (gameState eng)"
  by (simp add: processEnemyTurn_def Let_def case_prod_beta)

lemma hp_checkCombatEnd: "hp (gameState (checkCombatEnd eng)) = hp (gameState eng)"
  by (simp add: checkCombatEnd_def)

text \<open>
  C10. In the player's turn with at least 1 AP, a \<open>use_item\<close> action whose (non-empty)
  item is in the inventory and whose lowercased name contains none of \<open>bandage\<close>,
  \<open>medkit\<close>, \<open>heal\<close> passes validation; processing the item changes nothing (in particular
  neither \<open>hp\<close> nor the inventory) and yields the failed result "cannot be used in
  combat"; the inventory is the same after the whole call; the AP is deducted: with more
  than 1 AP the call ends with one AP less, the same \<open>hp\<close> and the same round, and with
  exactly 1 AP the enemy turn runs (next round, AP back at the base value).
\<close>

theorem use_item_not_usable:
  assumes turn: "cphase (combatState eng) = player_turn"
    and ap: "1 \<le> playerActionPoints (combatState eng)"
    and act: "atype action = use_item" "itemId action = Some item"
    and item: "item \<noteq> []" "item \<in> set (inventory (gameState eng))"
    and nh: "\<not> is_healing_item item"
  shows "isActionValid action eng \<and>
         dispatch action eng rs = ([cannot_use_result item], eng, rs) \<and>
         hd (fst (processAction action eng rs)) = cannot_use_result item \<and>
         \<not> success (cannot_use_result item) \<and>
         inventory (gameState (fst (snd (processAction action eng rs))))
           = inventory (gameState eng) \<and>
         playerActionPoints (combatState (fst (snd (processAction action eng rs)))) =
           (if playerActionPoints (combatState eng) = 1 then baseActionPoints
            else playerActionPoints (combatState eng) - 1) \<and>
         (1 < playerActionPoints (combatState eng) \<longrightarrow>
            hp (gameState (fst (snd (processAction action eng rs)))) = hp (gameState eng) \<and>
            round (combatState (fst (snd (processAction action eng rs))))
              = round (combatState eng)) \<and>
         (playerActionPoints (combatState eng) = 1 \<longrightarrow>
            round (combatState (fst (snd (processAction action eng rs))))
              = round (combatState eng) + 1)"
proof -
  have v: "isActionValid action eng"
    using turn ap act item by (simp add: isActionValid_def truthy_def)
  have d: "dispatch action eng rs = ([cannot_use_result item], eng, rs)"
    using act nh
    by (simp add: dispatch_def processUseItem_def Let_def is_healing_item_def
          cannot_use_result_def)
  have dd: "deduct_AP action [cannot_use_result item] eng =
             eng\<lparr>combatState := (combatState eng)\<lparr>playerActionPoints := AP eng - 1\<rparr>,
                  gameState := (gameState eng)\<lparr>actionPoints := AP eng - 1\<rparr>\<rparr>"
    using act by (simp add: deduct_AP_def Let_def)
  have ns: "\<not> success (cannot_use_result item)"
    by (simp add: cannot_use_result_def mk_result_def)
  show ?thesis
  proof (cases "AP eng = 1")
    case True
    then show ?thesis using v ns
      by (simp add: processAction_def d dd Let_def case_prod_beta inventory_checkCombatEnd
           inventory_processEnemyTurn endPlayerTurn_def checkCombatEnd_def
           processEnemyTurn_def)
  next
    case False
    with ap have "1 < AP eng" by simp
    then show ?thesis using v ns
      by (simp add: processAction_def d dd Let_def inventory_checkCombatEnd hp_checkCombatEnd
            checkCombatEnd_def)
  qed
qed

theorem use_item_not_usable_witness:
  "isActionValid (use_item_action ''Flashlight'') (new_CombatEngine (combat_state [walker])) \<and>
   hd (fst (processAction (use_item_action ''Flashlight'')
              (new_CombatEngine (combat_state [walker])) (sconst 0)))
     = cannot_use_result ''Flashlight'' \<and>
   playerActionPoints (combatState (fst (snd (processAction (use_item_action ''Flashlight'')
              (new_CombatEngine (combat_state [walker])) (sconst 0))))) = 2 \<and>
   hp (gameState (fst (snd (processAction (use_item_action ''Flashlight'')
              (new_CombatEngine (combat_state [walker])) (sconst 0))))) = 100"
proof -
  let ?eng = "new_CombatEngine (combat_state [walker])"
  have 1: "cphase (combatState ?eng) = player_turn"
    and 2: "1 \<le> playerActionPoints (combatState ?eng)"
    and 5: "''Flashlight'' \<in> set (inventory (gameState ?eng))"
    and 6: "playerActionPoints (combatState ?eng) = 3" and 7: "hp (gameState ?eng) = 100"
    by (simp_all add: new_CombatEngine_def combat_state_def)
  have 3: "atype (use_item_action ''Flashlight'') = use_item"
    and 4: "itemId (use_item_action ''Flashlight'') = Some ''Flashlight''"
    by (simp_all add: use_item_action_def)
  have 8: "\<not> is_healing_item ''Flashlight''"
    by (simp add: is_healing_item_def toLowerCase_def lower_char_def)
  have 9: "''Flashlight'' \<noteq> []" by simp
  from use_item_not_usable[OF 1 2 3 4 9 5 8, of "sconst 0"]
  show ?thesis by (simp add: 6 7)
qed

section \<open>Properties of the world module\<close>

subsection \<open>World generation\<close>

lemma unseeded_generation_reads_clock: "\<not> truthy sd \<Longrightarrow> actual_seed sd now = now"
  by (simp add: actual_seed_def)





subsection \<open>Visibility\<close>

lemma tiles_ok_nth:
  "tiles_ok ts =
     (\<forall>y < length ts. \<forall>x < length (ts ! y). visible (ts ! y ! x) \<longrightarrow> explored (ts ! y ! x))"
  by (simp add: tiles_ok_def list_all_length)

lemma flags_respected_refl: "flags_respected ts ts"
  by (simp add: flags_respected_def)

lemma flags_respectedD:
  assumes "flags_respected ts ts'"
  shows "length ts' = length ts"
    and "y < length ts \<Longrightarrow> length (ts' ! y) = length (ts ! y)"
    and "y < length ts \<Longrightarrow> x < length (ts ! y) \<Longrightarrow> explored (ts ! y ! x) \<Longrightarrow>
           explored (ts' ! y ! x)"
    and "y < length ts \<Longrightarrow> x < length (ts ! y) \<Longrightarrow> visible (ts' ! y ! x) \<Longrightarrow>
           \<not> explored (ts' ! y ! x) \<Longrightarrow> visible (ts ! y ! x) \<and> \<not> explored (ts ! y ! x)"
  using assms unfolding flags_respected_def by blast+

lemma flags_respected_trans:
  assumes a: "flags_respected ts ts'" and b: "flags_respected ts' ts''"
  shows "flags_respected ts ts''"
  unfolding flags_respected_def
proof (intro conjI allI impI)
  show "length ts'' = length ts"
    using flags_respectedD(1)[OF a] flags_respectedD(1)[OF b] by (rule trans[rotated])
next
  fix y assume y: "y < length ts"
  have y': "y < length ts'" using y flags_respectedD(1)[OF a] by (rule ssubst[rotated])
  have l: "length (ts' ! y) = length (ts ! y)" by (rule flags_respectedD(2)[OF a y])
  show "length (ts'' ! y) = length (ts ! y)"
    using flags_respectedD(2)[OF b y'] l by (rule trans)
  fix x assume x: "x < length (ts ! y)"
  have x': "x < length (ts' ! y)" using x l by (rule ssubst[rotated])
  { assume "explored (ts ! y ! x)"
    then have "explored (ts' ! y ! x)" by (rule flags_respectedD(3)[OF a y x])
    then show "explored (ts'' ! y ! x)" by (rule flags_respectedD(3)[OF b y' x']) }
  { assume "visible (ts'' ! y ! x) \<and> \<not> explored (ts'' ! y ! x)"
    then have "visible (ts' ! y ! x) \<and> \<not> explored (ts' ! y ! x)"
      using flags_respectedD(4)[OF b y' x'] by blast
    then have "visible (ts ! y ! x) \<and> \<not> explored (ts ! y ! x)"
      using flags_respectedD(4)[OF a y x] by blast
    then show "visible (ts ! y ! x)" and "\<not> explored (ts ! y ! x)" by blast+ }
qed

lemma flags_respected_ok:
  assumes a: "flags_respected ts ts'" and "tiles_ok ts"
  shows "tiles_ok ts'"
  unfolding tiles_ok_nth
proof (intro allI impI)
  fix y x assume y: "y < length ts'" and x: "x < length (ts' ! y)"
    and v: "visible (ts' ! y ! x)"
  have y0: "y < length ts" using y flags_respectedD(1)[OF a] by (rule subst[rotated])
  have x0: "x < length (ts ! y)" using x flags_respectedD(2)[OF a y0] by (rule subst[rotated])
  have "visible (ts ! y ! x) \<longrightarrow> explored (ts ! y ! x)"
    using assms(2) y0 x0 unfolding tiles_ok_nth by blast
  with flags_respectedD(4)[OF a y0 x0] v show "explored (ts' ! y ! x)" by blast
qed

lemma update_tile_shape:
  "length (update_tile x y f ts) = length ts"
  "length (update_tile x y f ts ! y') = length (ts ! y')"
proof -
  show "length (update_tile x y f ts) = length ts" by (simp add: update_tile_def)
  show "length (update_tile x y f ts ! y') = length (ts ! y')"
  proof (cases "nat y < length ts")
    case True
    then show ?thesis by (cases "y' = nat y") (simp_all add: update_tile_def)
  next
    case False
    then show ?thesis by (simp add: update_tile_def list_update_beyond)
  qed
qed

lemma update_tile_nth:
  assumes "tile_at ts x y = Some t" and "y' < length ts" and "x' < length (ts ! y')"
  shows "update_tile x y f ts ! y' ! x' =
           (if y' = nat y \<and> x' = nat x then f (ts ! y' ! x') else ts ! y' ! x')"
proof -
  from assms(1) have yr: "nat y < length ts" and xr: "nat x < length (ts ! nat y)"
    by (auto simp: tile_at_def split: if_splits)
  show ?thesis
  proof (cases "y' = nat y")
    case True
    with yr xr assms(3) show ?thesis
      by (cases "x' = nat x") (simp_all add: update_tile_def)
  next
    case False
    with yr show ?thesis by (simp add: update_tile_def)
  qed
qed

lemma mark_visible_respects: "flags_respected ts (mark_visible c ts)"
proof (cases "tile_at ts (fst c) (snd c)")
  case None
  then show ?thesis by (simp add: mark_visible_def flags_respected_refl)
next
  case (Some t)
  have "flags_respected ts
          (update_tile (fst c) (snd c) (\<lambda>t. t\<lparr>visible := True, explored := True\<rparr>) ts)"
    unfolding flags_respected_def
    by (simp add: update_tile_shape update_tile_nth[OF Some])
  with Some show ?thesis by (simp add: mark_visible_def)
qed

lemma marks_respect: "flags_respected ts (foldl (\<lambda>ts c. mark_visible c ts) ts cells)"
proof (induction cells arbitrary: ts)
  case Nil
  show ?case by (simp add: flags_respected_refl)
next
  case (Cons c cells)
  have "flags_respected ts (foldl (\<lambda>ts c. mark_visible c ts) (mark_visible c ts) cells)"
    using mark_visible_respects[of ts c] Cons.IH[of "mark_visible c ts"]
    by (rule flags_respected_trans)
  then show ?case by simp
qed

lemma reset_visible_nth:
  assumes "reset_visible world = Inr ts'"
  shows "length ts' = length (tiles world)"
    and "y < length (tiles world) \<Longrightarrow> length (ts' ! y) = length (tiles world ! y)"
    and "y < length (tiles world) \<Longrightarrow> x < length (tiles world ! y) \<Longrightarrow>
           ts' ! y ! x = (if int y < height world \<and> int x < width world
                          then (tiles world ! y ! x)\<lparr>visible := False\<rparr>
                          else tiles world ! y ! x)"
  using assms
  by (auto simp: reset_visible_def nth_enumerate_eq split: if_splits)

lemma reset_respects:
  assumes "reset_visible world = Inr ts'"
  shows "flags_respected (tiles world) ts'"
  unfolding flags_respected_def
  by (simp add: reset_visible_nth[OF assms])

lemma reset_ok_rect:
  assumes "reset_visible world = Inr ts'" and "rectangular world"
  shows "tiles_ok ts'"
proof -
  have "\<And>y x. y < length (tiles world) \<Longrightarrow> x < length (tiles world ! y) \<Longrightarrow>
          int y < height world \<and> int x < width world"
    using assms(2) by (auto simp: rectangular_def list_all_length)
  then show ?thesis
    unfolding tiles_ok_nth by (simp add: reset_visible_nth[OF assms(1)])
qed

lemma calculateFOV_tiles:
  "calculateFOV rot world x y r = Inr (world', vis) \<Longrightarrow>
     \<exists>cells. tiles world' = foldl (\<lambda>ts c. mark_visible c ts) (tiles world) cells"
  by (auto simp: calculateFOV_def split: sum.splits)


lemma update_tile_unseen:
  assumes "unseen_grid n m ts" and "\<And>t. visible (f t) = visible t"
  shows "unseen_grid n m (update_tile x y f ts)"
proof -
  have len: "length ts = n"
    and rows: "\<And>row. row \<in> set ts \<Longrightarrow> length row = m \<and> (\<forall>t \<in> set row. \<not> visible t)"
    using assms(1) by (auto simp: unseen_grid_def list_all_iff)
  show ?thesis
  proof (cases "nat y < length ts")
    case False
    then show ?thesis using assms(1) by (simp add: update_tile_def list_update_beyond)
  next
    case y: True
    let ?row = "ts ! nat y"
    have r: "length ?row = m" "\<forall>t \<in> set ?row. \<not> visible t"
      using rows[of ?row] y by simp_all
    have r': "length (?row[nat x := f (?row ! nat x)]) = m \<and>
              (\<forall>t \<in> set (?row[nat x := f (?row ! nat x)]). \<not> visible t)"
    proof (cases "nat x < length ?row")
      case False
      then show ?thesis using r by (simp add: list_update_beyond)
    next
      case True
      then have "\<not> visible (f (?row ! nat x))" using r(2) assms(2) by simp
      then show ?thesis
        using r set_update_subset_insert[of ?row "nat x" "f (?row ! nat x)"] by auto
    qed
    have "\<And>row. row \<in> set (update_tile x y f ts) \<Longrightarrow>
            length row = m \<and> (\<forall>t \<in> set row. \<not> visible t)"
    proof -
      fix row assume "row \<in> set (update_tile x y f ts)"
      then have "row = ?row[nat x := f (?row ! nat x)] \<or> row \<in> set ts"
        using set_update_subset_insert[of ts "nat y" "?row[nat x := f (?row ! nat x)]"]
        by (auto simp: update_tile_def)
      then show "length row = m \<and> (\<forall>t \<in> set row. \<not> visible t)"
        using r' rows by blast
    qed
    then show ?thesis
      using len by (simp add: unseen_grid_def list_all_iff update_tile_def)
  qed
qed

lemma initial_tiles_unseen: "unseen_grid (nat h) (nat w) (initial_tiles w h ty)"
  by (simp add: unseen_grid_def initial_tiles_def blank_tile_def list_all_iff)

lemma carve_unseen:
  "unseen_grid n m ts \<Longrightarrow> carve pick cells ts = Inr ts' \<Longrightarrow> unseen_grid n m ts'"
proof (induction pick cells ts rule: carve.induct)
  case (1 pick ts)
  then show ?case by simp
next
  case (2 pick x y v cells ts)
  then show ?case
    by (auto simp: update_tile_unseen split: option.splits)
qed

lemma place_door_unseen: "unseen_grid n m ts \<Longrightarrow> unseen_grid n m (place_door c ts)"
  by (simp add: place_door_def update_tile_unseen split: option.splits)

lemma place_door_fold_unseen:
  "unseen_grid n m ts \<Longrightarrow> unseen_grid n m (foldl (\<lambda>ts c. place_door c ts) ts cs)"
  by (induction cs arbitrary: ts) (simp_all add: place_door_unseen)

lemma place_doors_unseen: "unseen_grid n m ts \<Longrightarrow> unseen_grid n m (place_doors rooms ts)"
  unfolding place_doors_def
  by (induction rooms arbitrary: ts) (simp_all add: place_door_fold_unseen)

lemma place_resources_unseen:
  "unseen_grid n m ts \<Longrightarrow> unseen_grid n m (fst (place_resources rot rooms ts g))"
proof (induction rot rooms ts g rule: place_resources.induct)
  case (1 rot ts g)
  then show ?case by simp
next
  case (2 rot room rooms ts g)
  then show ?case
    by (auto simp: update_tile_unseen case_prod_beta Let_def split: option.splits)
qed

lemma place_buildings_unseen:
  "unseen_grid n m ts \<Longrightarrow> place_buildings rot k w h ts g = (Inr ts', g') \<Longrightarrow>
     unseen_grid n m ts'"
proof (induction k arbitrary: ts g)
  case 0
  then show ?case by simp
next
  case (Suc k)
  note ih1 = Suc.IH[OF Suc.prems(1)]
  have ih2: "place_buildings rot k w h
               (update_tile x y (\<lambda>t. t\<lparr>ttype := building, resources := R\<rparr>) ts) g2
               = (Inr ts', g') \<Longrightarrow> unseen_grid n m ts'" for x y R g2
    by (rule Suc.IH[OF update_tile_unseen[OF Suc.prems(1)]]) simp_all
  show ?case
    using Suc.prems(2) ih1 ih2
    by (auto simp: case_prod_beta Let_def split: option.splits if_splits)
qed

lemma generated_unseen:
  assumes "fst (generate rot parseFloat w h sd style now g) = Inr world"
  shows "unseen_grid (nat (height world)) (nat (width world)) (tiles world)"
proof (cases "style = outdoor")
  case True
  with assms show ?thesis
    by (auto simp: generate_def generateCellularWorld_def Let_def
          split: prod.splits sum.splits
          dest!: carve_unseen[OF initial_tiles_unseen]
          dest: place_buildings_unseen)
next
  case False
  then have "generate rot parseFloat w h sd style now g =
             generateProceduralWorld rot parseFloat w h sd now g"
    by (cases style) (simp_all add: generate_def)
  with assms show ?thesis
    by (auto simp: generateProceduralWorld_def Let_def case_prod_beta
          split: prod.splits sum.splits
          dest!: carve_unseen[OF initial_tiles_unseen]
          intro!: place_resources_unseen place_doors_unseen)
qed

lemma unseen_grid_ok:
  assumes "unseen_grid (nat (height world)) (nat (width world)) (tiles world)"
  shows "visible_explored world" and "rectangular world"
  using assms
  by (auto simp: unseen_grid_def visible_explored_def tiles_ok_def rectangular_def list_all_iff)

lemma calculateFOV_dims:
  "calculateFOV rot world x y r = Inr (world', vis) \<Longrightarrow>
     width world' = width world \<and> height world' = height world"
  by (auto simp: calculateFOV_def split: sum.splits)

lemma flags_respected_rect:
  assumes "flags_respected ts ts'"
    and "length ts = n \<and> list_all (\<lambda>row. length row = m) ts"
  shows "length ts' = n \<and> list_all (\<lambda>row. length row = m) ts'"
proof -
  have l: "length ts' = length ts" by (rule flags_respectedD(1)[OF assms(1)])
  have "\<And>y. y < length ts' \<Longrightarrow> length (ts' ! y) = m"
  proof -
    fix y assume "y < length ts'"
    then have y: "y < length ts" using l by simp
    have "length (ts ! y) = m" using assms(2) y by (simp add: list_all_length)
    with flags_respectedD(2)[OF assms(1) y] show "length (ts' ! y) = m" by simp
  qed
  then show ?thesis using l assms(2) by (simp add: list_all_length)
qed

text \<open>
  C7, as the code has it. Whatever cells the field-of-view algorithm reports, when
  \<open>calculateFOV\<close> or \<open>updateVisibility\<close> returns, the dimensions and the shape of the grid are
  as before, every tile that was explored is still explored, and no tile is visible and
  unexplored unless it already was before the call. So the world that \<open>calculateFOV\<close> leaves
  satisfies \<open>visible \<subseteq> explored\<close> if the world it was given did, and the world that
  \<open>updateVisibility\<close> leaves satisfies it if the world it was given did or had a grid of
  exactly \<open>height\<close> by \<open>width\<close> tiles. Every world that a generator returns satisfies
  \<open>visible \<subseteq> explored\<close> and has such a grid, and both functions keep such a grid: the
  invariant holds of every world that was generated and then only changed by visibility
  recomputes.
\<close>

theorem visibility_invariant:
  "(calculateFOV rot world x y r = Inr (world', vis) \<longrightarrow>
      flags_respected (tiles world) (tiles world') \<and>
      (visible_explored world \<longrightarrow> visible_explored world') \<and>
      (rectangular world \<longrightarrow> rectangular world')) \<and>
   (updateVisibility rot world x y r = Inr world'' \<longrightarrow>
      flags_respected (tiles world) (tiles world'') \<and>
      (visible_explored world \<or> rectangular world \<longrightarrow> visible_explored world'') \<and>
      (rectangular world \<longrightarrow> rectangular world'')) \<and>
   (fst (generate rot parseFloat w h sd style now g) = Inr world \<longrightarrow>
      visible_explored world \<and> rectangular world)"
proof (intro conjI impI)
  assume a: "calculateFOV rot world x y r = Inr (world', vis)"
  from calculateFOV_tiles[OF a] obtain cells where
    c: "tiles world' = foldl (\<lambda>ts c. mark_visible c ts) (tiles world) cells" by blast
  show f: "flags_respected (tiles world) (tiles world')" by (simp add: c marks_respect)
  { assume "visible_explored world"
    with f show "visible_explored world'"
      by (auto simp: visible_explored_def intro: flags_respected_ok) }
  { assume "rectangular world"
    then show "rectangular world'"
      using flags_respected_rect[OF f, of "nat (height world)" "nat (width world)"]
        calculateFOV_dims[OF a]
      by (simp add: rectangular_def) }
next
  assume a: "updateVisibility rot world x y r = Inr world''"
  then obtain ts vis' where r: "reset_visible world = Inr ts"
    and f: "calculateFOV rot (world\<lparr>tiles := ts\<rparr>) x y r = Inr (world'', vis')"
    by (auto simp: updateVisibility_def split: sum.splits)
  from calculateFOV_tiles[OF f] obtain cells where
    c: "tiles world'' = foldl (\<lambda>ts c. mark_visible c ts) ts cells" by auto
  show fr: "flags_respected (tiles world) (tiles world'')"
    using flags_respected_trans[OF reset_respects[OF r] marks_respect[of ts cells]]
    by (simp add: c)
  { assume "visible_explored world \<or> rectangular world"
    then have "tiles_ok ts"
      using flags_respected_ok[OF reset_respects[OF r]] reset_ok_rect[OF r]
      by (auto simp: visible_explored_def)
    then show "visible_explored world''"
      using flags_respected_ok[OF marks_respect[of ts cells]]
      by (simp add: visible_explored_def c) }
  { assume "rectangular world"
    then show "rectangular world''"
      using flags_respected_rect[OF fr, of "nat (height world)" "nat (width world)"]
        calculateFOV_dims[OF f]
      by (simp add: rectangular_def) }
next
  assume "fst (generate rot parseFloat w h sd style now g) = Inr world"
  then have "unseen_grid (nat (height world)) (nat (width world)) (tiles world)"
    by (rule generated_unseen)
  then show "visible_explored world" and "rectangular world"
    by (rule unseen_grid_ok)+
qed

lemma walled_world_facts:
  "visible_explored walled_world" "rectangular walled_world"
  by (simp_all add: visible_explored_def tiles_ok_def rectangular_def walled_world_def
        blank_tile_def)

lemma reset_walled_world: "reset_visible walled_world = Inr (tiles walled_world)"
  by (simp add: reset_visible_def walled_world_def tile_at_def blank_tile_def upto.simps
        enumerate_eq_zip)

text \<open>
  The 3 by 3 world with a wall in the middle, seen from \<open>(0, 1)\<close>, and a 2 by 2 dungeon
  generated by the stand-in library.
\<close>

theorem visibility_invariant_witness:
  "visible_explored walled_world \<and> rectangular walled_world \<and>
   (\<exists>w' vis w'' w0.
     calculateFOV toy_rot walled_world 0 1 8 = Inr (w', vis) \<and>
     visible_explored w' \<and> rectangular w' \<and>
     flags_respected (tiles walled_world) (tiles w') \<and>
     updateVisibility toy_rot walled_world 0 1 8 = Inr w'' \<and>
     visible_explored w'' \<and> rectangular w'' \<and>
     flags_respected (tiles walled_world) (tiles w'') \<and>
     fst (generate toy_rot toy_parseFloat 2 2 (Some ''7'') dungeon ''1'' 0) = Inr w0 \<and>
     visible_explored w0 \<and> rectangular w0)"
proof -
  obtain w' vis where a: "calculateFOV toy_rot walled_world 0 1 8 = Inr (w', vis)"
    by (simp add: calculateFOV_def toy_rot_def)
  obtain w'' where b: "updateVisibility toy_rot walled_world 0 1 8 = Inr w''"
    by (simp add: updateVisibility_def reset_walled_world calculateFOV_def toy_rot_def)
  obtain w0 where
    c: "fst (generate toy_rot toy_parseFloat 2 2 (Some ''7'') dungeon ''1'' 0) = Inr w0"
    by (simp add: generate_def generateProceduralWorld_def toy_rot_def toy_cells_def
          upto.simps tile_at_def update_tile_def initial_tiles_def Let_def numeral_2_eq_2
          case_prod_beta)
  from visibility_invariant[of toy_rot walled_world 0 1 8 w' vis w'' toy_parseFloat]
    visibility_invariant[of toy_rot w0 0 1 8 w' vis w'' toy_parseFloat 2 2 "Some ''7''" dungeon
      "''1''" 0]
    a b c walled_world_facts
  show ?thesis by blast
qed

text \<open>
  C7 as the claim states it, on any world, fails on a world that enters with a visible
  unexplored tile outside the field of view: \<open>calculateFOV\<close> only marks the tiles it sees
  and leaves the others as they are. In the corridor of five tiles whose last tile is
  visible and unexplored, seen from \<open>(0, 0)\<close> with radius 1, the first two tiles end visible
  and explored and the last one is still visible and unexplored.
\<close>

theorem visibility_stale_tile_counterexample:
  "(case calculateFOV toy_rot stale_world 0 0 1 of
      Inl e \<Rightarrow> None
    | Inr (world', vis) \<Rightarrow>
        Some (map (map (\<lambda>t. (visible t, explored t))) (tiles world'),
              visible_explored world')) =
   Some ([[(True, True), (True, True), (False, False), (False, False), (True, False)]], False)"
  by (simp add: calculateFOV_def toy_rot_def stale_world_def mark_visible_def tile_at_def
        update_tile_def blank_tile_def visible_explored_def tiles_ok_def)

subsection \<open>Line of sight\<close>

lemma all_clear_True:
  "\<forall>c \<in> set path. lightPasses world (fst c) (snd c) = Inr True \<Longrightarrow>
     all_clear world path clear = Inr clear"
  by (induction path arbitrary: clear) simp_all

lemma rectangular_lightPasses:
  "rectangular world \<Longrightarrow> lightPasses world x y \<noteq> Inl TypeError"
  by (auto simp: rectangular_def lightPasses_def tile_at_def list_all_length
           split: option.splits)

text \<open>
  C2. On a world with a full grid, \<open>hasLineOfSight\<close> returns true whenever the end tile
  itself lets light pass, whatever tiles lie between start and end: the cells it inspects
  are those of a path that the path finder found, and the path finder only walks over
  cells that \<open>lightPasses\<close> accepts.
\<close>

theorem line_of_sight_ignores_walls:
  assumes c: "astar_contract rot" and r: "rectangular world"
    and e: "lightPasses world (px end_pos) (py end_pos) = Inr True"
  shows "hasLineOfSight rot world start end_pos = Inr True"
proof -
  let ?res = "astar rot (lightPasses world) (px end_pos, py end_pos) (px start, py start)"
  from c r have "?res \<noteq> Inl TypeError"
    unfolding astar_contract_def using rectangular_lightPasses by blast
  then obtain path where p: "?res = Inr path"
    by (cases ?res) (auto intro: error.exhaust)
  with c have "\<forall>c \<in> set path. c = (px end_pos, py end_pos) \<or>
                  lightPasses world (fst c) (snd c) = Inr True"
    unfolding astar_contract_def by blast
  with e have "\<forall>c \<in> set path. lightPasses world (fst c) (snd c) = Inr True" by auto
  then show ?thesis by (simp add: hasLineOfSight_def p all_clear_True)
qed

lemma toy_rot_contract: "astar_contract toy_rot"
  by (auto simp: astar_contract_def toy_rot_def toy_astar_def split: if_splits)

text \<open>
  The wall in the middle of the 3 by 3 world lies on the straight segment from \<open>(0, 1)\<close> to
  \<open>(2, 1)\<close>; the path finder walks around it over \<open>(1, 0)\<close>, and the answer is true.
\<close>

theorem line_of_sight_ignores_walls_witness:
  "astar_contract toy_rot \<and> rectangular walled_world \<and>
   lightPasses walled_world 1 1 = Inr False \<and>
   astar toy_rot (lightPasses walled_world) (2, 1) (0, 1) = Inr [(0, 1), (1, 0), (2, 1)] \<and>
   hasLineOfSight toy_rot walled_world \<lparr>px = 0, py = 1\<rparr> \<lparr>px = 2, py = 1\<rparr> = Inr True"
proof -
  have e: "lightPasses walled_world (px \<lparr>px = 2, py = 1\<rparr>) (py \<lparr>px = 2, py = 1\<rparr>) = Inr True"
    by (simp add: lightPasses_def walled_world_def tile_at_def blank_tile_def)
  have w: "lightPasses walled_world 1 1 = Inr False"
    by (simp add: lightPasses_def walled_world_def tile_at_def blank_tile_def)
  have p: "astar toy_rot (lightPasses walled_world) (2, 1) (0, 1) = Inr [(0, 1), (1, 0), (2, 1)]"
    by (simp add: toy_rot_def toy_astar_def lightPasses_def walled_world_def tile_at_def
          blank_tile_def)
  from line_of_sight_ignores_walls[OF toy_rot_contract walled_world_facts(2) e,
         of "\<lparr>px = 0, py = 1\<rparr>"] toy_rot_contract walled_world_facts(2) w p
  show ?thesis by blast
qed

section \<open>Properties of the host's listener\<close>



end
